theory Spec2Isabelle
  imports Complex_Main "HOL-Library.Word" "HOL-Library.Log_Nat" "HOL-Library.Multiset"
    "HOL-Library.Code_Target_Numeral"
begin

unbundle bit_operations_syntax

section \<open>Conventions of the embedding\<close>

text \<open>
  The development embeds the rendering core of the map server
  (\<^verbatim>\<open>RenderEngine.cpp\<close>, \<^verbatim>\<open>RenderEngine.h\<close>, \<^verbatim>\<open>Config.h\<close> and the validation and tile
  handlers of \<^verbatim>\<open>HttpServer.cpp\<close>).

  \<^item> \<^verbatim>\<open>uint8_t\<close> is \<open>8 word\<close>, \<^verbatim>\<open>size_t\<close> is \<open>64 word\<close> where the source computes with it
    (wrap-around included), and a \<^verbatim>\<open>std::vector<uint8_t>\<close> is a list of bytes.
  \<^item> \<^verbatim>\<open>int\<close> is a mathematical integer: the source's arithmetic on \<^verbatim>\<open>int\<close> is modelled
    where it does not overflow (signed overflow is undefined in C++).
  \<^item> \<^verbatim>\<open>double\<close> is the IEEE 754 binary64 format, held as its 64 bits: signed zeros,
    subnormal numbers, infinities and NaN are values, and each operation returns the exact
    result rounded to the nearest \<^verbatim>\<open>double\<close>, ties to the even fraction.
  \<^item> \<^verbatim>\<open>pow\<close>, \<^verbatim>\<open>sinh\<close> and \<^verbatim>\<open>atan\<close> of the C library, whose accuracy the standard leaves
    open, are the real functions: the box of a tile is computed in exact arithmetic.
  \<^item> A C++ exception and an out-of-bounds vector access are values of \<open>cpp_fault\<close>; code
    that can raise one returns a sum, \<open>Inl\<close> carrying the fault.
  \<^item> Functions of the C++ standard library and of libpng whose results the standard
    leaves to the implementation (\<^verbatim>\<open>std::hash\<close>, the stream output of a \<^verbatim>\<open>double\<close>, the PNG
    encoder) are parameters of the functions that call them.
\<close>

type_synonym u8 = "8 word"
type_synonym size_t = "64 word"

datatype cpp_fault =
    StdInvalidArgument    \<comment> \<open>\<^verbatim>\<open>std::invalid_argument\<close>, thrown by \<^verbatim>\<open>std::stoi\<close>\<close>
  | StdOutOfRange         \<comment> \<open>\<^verbatim>\<open>std::out_of_range\<close>, thrown by \<^verbatim>\<open>std::stoi\<close>\<close>
  | OutOfBoundsAccess     \<comment> \<open>\<^verbatim>\<open>operator[]\<close> of a vector past its size: undefined behaviour\<close>

definition bind_sum :: "'e + 'a \<Rightarrow> ('a \<Rightarrow> 'e + 'b) \<Rightarrow> 'e + 'b" where
  "bind_sum m f = (case m of Inl e \<Rightarrow> Inl e | Inr x \<Rightarrow> f x)"

text \<open>The loop \<^verbatim>\<open>for (int i = lo; i <= hi; ++i) body\<close> over a state that a fault aborts.\<close>

function for_range :: "int \<Rightarrow> int \<Rightarrow> (int \<Rightarrow> 's \<Rightarrow> 'e + 's) \<Rightarrow> 's \<Rightarrow> 'e + 's" where
  "for_range lo hi body s =
     (if lo \<le> hi then
        (case body lo s of
           Inl e \<Rightarrow> Inl e
         | Inr s' \<Rightarrow> for_range (lo + 1) hi body s')
      else Inr s)"
  by pat_completeness auto
termination
  by (relation "measure (\<lambda>(lo, hi, body, s). nat (hi + 1 - lo))") auto

declare for_range.simps [simp del]

subsection \<open>Vectors of bytes\<close>

text \<open>\<^verbatim>\<open>vec[i] = v\<close>: defined only below the vector's size.\<close>

definition vec_set :: "u8 list \<Rightarrow> nat \<Rightarrow> u8 \<Rightarrow> cpp_fault + u8 list" where
  "vec_set vec i v = (if i < length vec then Inr (vec[i := v]) else Inl OutOfBoundsAccess)"

text \<open>The four stores \<^verbatim>\<open>vec[index] = r; vec[index + 1] = g; vec[index + 2] = b; vec[index + 3] = a\<close>.\<close>

definition store_rgba :: "u8 list \<Rightarrow> nat \<Rightarrow> u8 \<Rightarrow> u8 \<Rightarrow> u8 \<Rightarrow> u8 \<Rightarrow> cpp_fault + u8 list" where
  "store_rgba vec index r g b a =
     bind_sum (vec_set vec index r) (\<lambda>v1.
     bind_sum (vec_set v1 (index + 1) g) (\<lambda>v2.
     bind_sum (vec_set v2 (index + 2) b) (\<lambda>v3.
     vec_set v3 (index + 3) a)))"

text \<open>\<^verbatim>\<open>vec.resize(n)\<close>: truncates, or appends value-initialised (zero) bytes.\<close>

definition vec_resize :: "nat \<Rightarrow> u8 list \<Rightarrow> u8 list" where
  "vec_resize n vec = take n vec @ replicate (n - length vec) 0"

subsection \<open>Decimal output of integers\<close>

definition digit_char :: "nat \<Rightarrow> char" where
  "digit_char d = char_of (48 + d)"

function to_string_nat :: "nat \<Rightarrow> string" where
  "to_string_nat n =
     (if n < 10 then [digit_char n]
      else to_string_nat (n div 10) @ [digit_char (n mod 10)])"
  by pat_completeness auto
termination
  by (relation "measure id") auto

declare to_string_nat.simps [simp del]

text \<open>\<^verbatim>\<open>std::to_string(int)\<close> and \<^verbatim>\<open>oss << int\<close>.\<close>

definition to_string_int :: "int \<Rightarrow> string" where
  "to_string_int i =
     (if i < 0 then CHR ''-'' # to_string_nat (nat (- i)) else to_string_nat (nat i))"

section \<open>Binary floating point\<close>

text \<open>
  A \<^verbatim>\<open>double\<close> is its 64 bits: the sign bit, and the other 63 bits, which hold the biased
  exponent (11 bits) above the fraction (52 bits). The exponent field 0 holds the zeros and
  the subnormal numbers; the field 2047 holds the infinities (fraction 0) and the NaNs.
\<close>

datatype double = Double (sign_bit: bool) (magnitude: "63 word")

definition exponent_field :: "double \<Rightarrow> nat" where
  "exponent_field d = unat (magnitude d) div 2 ^ 52"

definition fraction_field :: "double \<Rightarrow> nat" where
  "fraction_field d = unat (magnitude d) mod 2 ^ 52"

definition isnan :: "double \<Rightarrow> bool" where
  "isnan d \<longleftrightarrow> unat (magnitude d) > 2047 * 2 ^ 52"

definition isinf :: "double \<Rightarrow> bool" where
  "isinf d \<longleftrightarrow> unat (magnitude d) = 2047 * 2 ^ 52"

definition isfinite :: "double \<Rightarrow> bool" where
  "isfinite d \<longleftrightarrow> unat (magnitude d) < 2047 * 2 ^ 52"

text \<open>\<^verbatim>\<open>ldexp(x, e)\<close> is \<open>x * 2^e\<close>.\<close>

definition ldexp :: "real \<Rightarrow> int \<Rightarrow> real" where
  "ldexp x e = (if e \<ge> 0 then x * 2 ^ nat e else x / 2 ^ nat (- e))"

text \<open>
  The number that a finite \<^verbatim>\<open>double\<close> denotes: \<open>fraction * 2^-1074\<close> when the exponent field
  is 0, else \<open>(2^52 + fraction) * 2^(field - 1075)\<close>. For an infinity the formula gives
  \<open>2^1024\<close>, which is above every finite \<^verbatim>\<open>double\<close>.
\<close>

definition mantissa :: "double \<Rightarrow> nat" where
  "mantissa d = (if exponent_field d = 0 then fraction_field d else 2 ^ 52 + fraction_field d)"

definition exponent :: "double \<Rightarrow> int" where
  "exponent d = (if exponent_field d = 0 then - 1074 else int (exponent_field d) - 1075)"

definition valof :: "double \<Rightarrow> real" where
  "valof d =
     (if sign_bit d then - ldexp (of_nat (mantissa d)) (exponent d)
      else ldexp (of_nat (mantissa d)) (exponent d))"

text \<open>The absolute value in units of \<open>2^-1074\<close>, a natural number.\<close>

definition scaled_magnitude :: "double \<Rightarrow> nat" where
  "scaled_magnitude d =
     (if exponent_field d = 0 then fraction_field d
      else (2 ^ 52 + fraction_field d) * 2 ^ (exponent_field d - 1))"

subsection \<open>Rounding to nearest, ties to even\<close>

definition round_half_even :: "real \<Rightarrow> int" where
  "round_half_even x =
     (let f = \<lfloor>x\<rfloor>; d = x - of_int f
      in if d < 1 / 2 then f else if d > 1 / 2 then f + 1 else if even f then f else f + 1)"

text \<open>The binary exponent of \<open>v > 0\<close>: the \<open>e\<close> with \<open>2^e \<le> v < 2^(e+1)\<close>.\<close>

definition binary_exponent :: "real \<Rightarrow> int" where
  "binary_exponent v =
     (if v \<ge> 1 then int (floorlog 2 (nat \<lfloor>v\<rfloor>)) - 1
      else - int (floorlog 2 (nat \<lceil>1 / v\<rceil> - 1)))"

text \<open>
  The 63 bits of the \<^verbatim>\<open>double\<close> nearest to \<open>v > 0\<close>, where \<open>e\<close> is the binary exponent of \<open>v\<close>,
  or \<open>-1022\<close> when that is smaller (the subnormal numbers): \<open>v / 2^(e - 52)\<close> rounded to an
  integer is the fraction together with its leading bit, which counts as one in the
  exponent field. A fraction that rounds up to \<open>2^53\<close> carries into the exponent field, and
  a result past the largest finite \<^verbatim>\<open>double\<close> is the infinity.
\<close>

definition round_with_exponent :: "real \<Rightarrow> int \<Rightarrow> nat" where
  "round_with_exponent v e =
     nat (min ((e + 1022) * 2 ^ 52 + round_half_even (ldexp v (52 - e))) (2047 * 2 ^ 52))"

definition round_magnitude :: "real \<Rightarrow> nat" where
  "round_magnitude v =
     (if v = 0 then 0 else round_with_exponent v (max (binary_exponent v) (- 1022)))"

text \<open>
  The \<^verbatim>\<open>double\<close> nearest to the exact result \<open>r\<close> of an operation; \<open>zero_sign\<close> is the sign
  that the operation gives to an exact zero.
\<close>

definition round_to_double :: "bool \<Rightarrow> real \<Rightarrow> double" where
  "round_to_double zero_sign r =
     (if r = 0 then Double zero_sign 0 else Double (r < 0) (of_nat (round_magnitude \<bar>r\<bar>)))"

subsection \<open>Conversions, arithmetic and comparison\<close>

text \<open>
  A decimal literal of the source, and the conversion of an \<^verbatim>\<open>int\<close> (which is exact).
\<close>

definition to_double :: "real \<Rightarrow> double" where
  "to_double x = round_to_double False x"

definition int_to_double :: "int \<Rightarrow> double" where
  "int_to_double i = to_double (of_int i)"

text \<open>
  An operation on a NaN, and an invalid operation (\<open>\<infinity> - \<infinity>\<close>, \<open>0 * \<infinity>\<close>, \<open>0 / 0\<close>,
  \<open>\<infinity> / \<infinity>\<close>), return a NaN. Which NaN is left to the processor: it is \<open>quiet_NaN\<close> here, and
  nothing below depends on the choice.
\<close>

definition quiet_NaN :: double where
  "quiet_NaN = Double False (of_nat (2047 * 2 ^ 52 + 2 ^ 51))"

definition infinity :: "bool \<Rightarrow> double" where
  "infinity s = Double s (of_nat (2047 * 2 ^ 52))"

definition double_neg :: "double \<Rightarrow> double" where
  "double_neg d = Double (\<not> sign_bit d) (magnitude d)"

text \<open>\<open>a - b\<close>. An exact zero is \<open>-0\<close> only for \<open>(-0) - (+0)\<close>.\<close>

definition double_sub :: "double \<Rightarrow> double \<Rightarrow> double" where
  "double_sub a b =
     (if isnan a \<or> isnan b then quiet_NaN
      else if isinf a then (if isinf b \<and> sign_bit a = sign_bit b then quiet_NaN else a)
      else if isinf b then double_neg b
      else round_to_double (sign_bit a \<and> \<not> sign_bit b) (valof a - valof b))"

text \<open>\<open>a * b\<close> and \<open>a / b\<close>. The sign of a zero or an infinity is the sign of the quotient.\<close>

definition double_mul :: "double \<Rightarrow> double \<Rightarrow> double" where
  "double_mul a b =
     (if isnan a \<or> isnan b then quiet_NaN
      else if isinf a \<or> isinf b then
        (if magnitude a = 0 \<or> magnitude b = 0 then quiet_NaN
         else infinity (sign_bit a \<noteq> sign_bit b))
      else round_to_double (sign_bit a \<noteq> sign_bit b) (valof a * valof b))"

definition double_div :: "double \<Rightarrow> double \<Rightarrow> double" where
  "double_div a b =
     (if isnan a \<or> isnan b then quiet_NaN
      else if isinf a then (if isinf b then quiet_NaN else infinity (sign_bit a \<noteq> sign_bit b))
      else if isinf b then Double (sign_bit a \<noteq> sign_bit b) 0
      else if magnitude b = 0 then
        (if magnitude a = 0 then quiet_NaN else infinity (sign_bit a \<noteq> sign_bit b))
      else round_to_double (sign_bit a \<noteq> sign_bit b) (valof a / valof b))"

text \<open>
  The operators of the source on \<^verbatim>\<open>double\<close>: \<open>0\<close> is \<open>+0.0\<close>, \<open>1\<close> is \<open>1.0\<close>, and a comparison
  with a NaN is false.
\<close>

instantiation double :: "{zero, one, uminus, minus, times, inverse, ord}"
begin

definition zero_double :: double where
  "zero_double = Double False 0"

definition one_double :: double where
  "one_double = Double False (of_nat (1023 * 2 ^ 52))"

definition uminus_double :: "double \<Rightarrow> double" where
  "uminus_double = double_neg"

definition minus_double :: "double \<Rightarrow> double \<Rightarrow> double" where
  "minus_double = double_sub"

definition times_double :: "double \<Rightarrow> double \<Rightarrow> double" where
  "times_double = double_mul"

definition divide_double :: "double \<Rightarrow> double \<Rightarrow> double" where
  "divide_double = double_div"

definition inverse_double :: "double \<Rightarrow> double" where
  "inverse_double = double_div (Double False (of_nat (1023 * 2 ^ 52)))"

definition less_double :: "double \<Rightarrow> double \<Rightarrow> bool" where
  "less_double a b \<longleftrightarrow> \<not> isnan a \<and> \<not> isnan b \<and> valof a < valof b"

definition less_eq_double :: "double \<Rightarrow> double \<Rightarrow> bool" where
  "less_eq_double a b \<longleftrightarrow> \<not> isnan a \<and> \<not> isnan b \<and> valof a \<le> valof b"

instance ..

end

text \<open>The operator \<^verbatim>\<open>==\<close> on \<^verbatim>\<open>double\<close>: \<open>-0.0\<close> and \<open>+0.0\<close> are equal, a NaN equals nothing.\<close>

definition double_eq :: "double \<Rightarrow> double \<Rightarrow> bool" where
  "double_eq a b \<longleftrightarrow> \<not> isnan a \<and> \<not> isnan b \<and> valof a = valof b"

text \<open>
  \<^verbatim>\<open>static_cast<int>\<close> of a \<^verbatim>\<open>double\<close> drops the fraction (towards zero); it is undefined
  (\<open>None\<close>) for a NaN, an infinity and a result that is not an \<^verbatim>\<open>int\<close>.
\<close>

definition truncate_toward_zero :: "real \<Rightarrow> int" where
  "truncate_toward_zero d = (if d \<ge> 0 then \<lfloor>d\<rfloor> else \<lceil>d\<rceil>)"

definition double_to_int :: "double \<Rightarrow> int option" where
  "double_to_int d =
     (if isfinite d \<and> - 2147483648 \<le> truncate_toward_zero (valof d) \<and>
         truncate_toward_zero (valof d) \<le> 2147483647
      then Some (truncate_toward_zero (valof d)) else None)"

text \<open>The \<^verbatim>\<open>double\<close>s on which the cast is defined.\<close>

definition fits_int :: "double \<Rightarrow> bool" where
  "fits_int d \<longleftrightarrow> isfinite d \<and> - 2147483649 < valof d \<and> valof d < 2147483648"

section \<open>Data model (\<^verbatim>\<open>RenderEngine.h\<close>, \<^verbatim>\<open>Config.h\<close>)\<close>

text \<open>
  The four coordinates of a \<^verbatim>\<open>BoundingBox\<close> are of type \<^verbatim>\<open>double\<close>. The record leaves the
  type of a coordinate open, so that the box of a tile can be stated in exact arithmetic;
  \<open><\<close> and \<open>-\<close> are those of the coordinates.
\<close>

record 'a BoundingBox =
  m_dMinX :: 'a
  m_dMinY :: 'a
  m_dMaxX :: 'a
  m_dMaxY :: 'a

definition IsValid :: "'a::ord BoundingBox \<Rightarrow> bool" where
  "IsValid bbox \<longleftrightarrow> m_dMinX bbox < m_dMaxX bbox \<and> m_dMinY bbox < m_dMaxY bbox"

definition Width :: "'a::minus BoundingBox \<Rightarrow> 'a" where
  "Width bbox = m_dMaxX bbox - m_dMinX bbox"

definition Height :: "'a::minus BoundingBox \<Rightarrow> 'a" where
  "Height bbox = m_dMaxY bbox - m_dMinY bbox"

text \<open>The fields of \<^verbatim>\<open>ServerConfig\<close> that the rendering core reads.\<close>

record ServerConfig =
  m_nMaxImageWidth :: int
  m_nMaxImageHeight :: int

definition GetDefaultConfig :: ServerConfig where
  "GetDefaultConfig = \<lparr> m_nMaxImageWidth = 4096, m_nMaxImageHeight = 4096 \<rparr>"

record LayerStyle =
  m_strFillColor :: string
  m_strStrokeColor :: string
  m_nStrokeWidth :: int
  m_nOpacity :: int
  m_nPointRadius :: int
  m_strPointColor :: string
  m_strLineColor :: string
  m_nLineWidth :: int

text \<open>The default member initialisers of \<^verbatim>\<open>LayerStyle\<close>.\<close>

definition LayerStyle_default :: LayerStyle where
  "LayerStyle_default =
     \<lparr> m_strFillColor = ''#cccccc'', m_strStrokeColor = ''#000000'', m_nStrokeWidth = 1,
       m_nOpacity = 255, m_nPointRadius = 3, m_strPointColor = ''#ff0000'',
       m_strLineColor = ''#0000ff'', m_nLineWidth = 2 \<rparr>"

record MapRequest =
  m_bbox :: "double BoundingBox"
  m_nWidth :: int
  m_nHeight :: int
  m_vecLayers :: "string list"
  m_mapStyles :: "string \<rightharpoonup> LayerStyle"
  m_strBackgroundColor :: string
  m_strFilter :: string

section \<open>Tile requests (\<^verbatim>\<open>HttpServer.cpp\<close>)\<close>

text \<open>
  \<^verbatim>\<open>ValidateTileParameters\<close> returns \<^verbatim>\<open>false\<close> with a message in \<^verbatim>\<open>strError\<close> (\<open>Inl\<close>), or
  \<^verbatim>\<open>true\<close> (\<open>Inr\<close>). \<^verbatim>\<open>1 << z\<close> is evaluated only for \<open>0 \<le> z \<le> 20\<close>.
\<close>

definition ValidateTileParameters :: "int \<Rightarrow> int \<Rightarrow> int \<Rightarrow> string + unit" where
  "ValidateTileParameters z x y =
     (if z < 0 \<or> z > 20 then Inl ''Zoom level must be between 0 and 20''
      else
        let maxTile = 2 ^ nat z - 1 in
        if x < 0 \<or> x > maxTile then
          Inl (''Tile X coordinate must be between 0 and '' @ to_string_int maxTile)
        else if y < 0 \<or> y > maxTile then
          Inl (''Tile Y coordinate must be between 0 and '' @ to_string_int maxTile)
        else Inr ())"

text \<open>The macro \<^verbatim>\<open>#define M_PI 3.1415926535893756\<close> of \<^verbatim>\<open>HttpServer.cpp\<close>.\<close>

definition M_PI :: real where
  "M_PI = 31415926535893756 / 10000000000000000"

text \<open>
  The bounding box of a tile, as \<^verbatim>\<open>HandleTileRequest\<close> computes it for the \<^verbatim>\<open>x-bbox\<close> header:
  \<open>(lonLeft, latBottom, lonRight, latTop)\<close>, in exact arithmetic.
\<close>

definition tile_bbox :: "int \<Rightarrow> int \<Rightarrow> int \<Rightarrow> real BoundingBox" where
  "tile_bbox z x y =
     (let n = 2 powr (of_int z);
          tileX = of_int x;
          tileY = of_int y;
          lonLeft = tileX / n * 360 - 180;
          lonRight = (tileX + 1) / n * 360 - 180;
          latTop = arctan (sinh (M_PI * (1 - 2 * tileY / n))) * 180 / M_PI;
          latBottom = arctan (sinh (M_PI * (1 - 2 * (tileY + 1) / n))) * 180 / M_PI
      in \<lparr> m_dMinX = lonLeft, m_dMinY = latBottom, m_dMaxX = lonRight, m_dMaxY = latTop \<rparr>)"

text \<open>The uniform background of the test tile: dark when \<open>x + y\<close> is even.\<close>

definition tile_fill_pixel :: "bool \<Rightarrow> int \<Rightarrow> int \<Rightarrow> u8 list \<Rightarrow> cpp_fault + u8 list" where
  "tile_fill_pixel dark py px vec =
     (let index = nat ((py * 256 + px) * 4) in
      if dark then store_rgba vec index 100 100 100 255
      else store_rgba vec index 200 200 200 255)"

text \<open>One 8 by 8 red block per character of the label, at most 20 of them.\<close>

definition tile_text_pixel :: "int \<Rightarrow> int \<Rightarrow> int \<Rightarrow> u8 list \<Rightarrow> cpp_fault + u8 list" where
  "tile_text_pixel i dy dx vec =
     (let px = 10 + i * 8; py = 20; xpos = px + dx; ypos = py + dy in
      if xpos < 256 \<and> ypos < 256 then store_rgba vec (nat ((ypos * 256 + xpos) * 4)) 255 0 0 255
      else Inr vec)"

definition tile_image :: "int \<Rightarrow> int \<Rightarrow> int \<Rightarrow> cpp_fault + u8 list" where
  "tile_image z x y =
     (let tileSize = 256;
          vecImageData = replicate (nat (tileSize * tileSize * 4)) 0;
          dark = ((x + y) mod 2 = 0);
          text = ''Z:'' @ to_string_int z @ '' X:'' @ to_string_int x @ '' Y:'' @ to_string_int y
      in bind_sum
           (for_range 0 (tileSize - 1)
              (\<lambda>py. for_range 0 (tileSize - 1) (tile_fill_pixel dark py)) vecImageData)
           (for_range 0 (min (int (length text)) 20 - 1)
              (\<lambda>i. for_range 0 7 (\<lambda>dy. for_range 0 7 (tile_text_pixel i dy)))))"

text \<open>
  What \<^verbatim>\<open>HandleTileRequest\<close> leaves in its reference parameters: the status it sets on the
  response (if any), the \<^verbatim>\<open>x-bbox\<close> header (the box, before \<^verbatim>\<open>std::to_string\<close> formats it),
  the body and the content type. The timing headers and the copy written to the tile
  directory are not modelled.
\<close>

record tile_response =
  res_status :: "int option"
  x_bbox :: "real BoundingBox option"
  vecResponse :: "u8 list"
  strContentType :: string

definition HandleTileRequest ::
  "(u8 list \<Rightarrow> int \<Rightarrow> int \<Rightarrow> u8 list option) \<Rightarrow> int \<Rightarrow> int \<Rightarrow> int \<Rightarrow> tile_response
     \<Rightarrow> cpp_fault + tile_response" where
  "HandleTileRequest EncodeToMemory z x y res =
     (case ValidateTileParameters z x y of
        Inl validationError \<Rightarrow>
          Inr (res \<lparr> res_status := Some 400, strContentType := ''application/json'',
                     vecResponse := [] \<rparr>)
      | Inr _ \<Rightarrow>
          bind_sum (tile_image z x y) (\<lambda>vecImageData.
            case EncodeToMemory vecImageData 256 256 of
              Some png \<Rightarrow>
                Inr (res \<lparr> vecResponse := png, strContentType := ''image/png'',
                           x_bbox := Some (tile_bbox z x y) \<rparr>)
            | None \<Rightarrow> Inr (res \<lparr> vecResponse := [] \<rparr>)))"

section \<open>Colour parsing (\<^verbatim>\<open>RenderEngine.cpp\<close>)\<close>

text \<open>
  Characters are bytes; \<open>of_char\<close> is the code. For a code below 128 the comparisons of the
  source on \<^verbatim>\<open>char\<close> are the comparisons of the codes, and a code from 128 on lies in none
  of the ranges below, whether \<^verbatim>\<open>char\<close> is signed or not.
\<close>

definition isspace :: "char \<Rightarrow> bool" where
  "isspace c = (let n = (of_char c :: nat) in n = 32 \<or> (9 \<le> n \<and> n \<le> 13))"

definition isxdigit :: "char \<Rightarrow> bool" where
  "isxdigit c =
     (let n = (of_char c :: nat)
      in (48 \<le> n \<and> n \<le> 57) \<or> (97 \<le> n \<and> n \<le> 102) \<or> (65 \<le> n \<and> n \<le> 70))"

definition hex_digit_value :: "char \<Rightarrow> nat" where
  "hex_digit_value c =
     (let n = (of_char c :: nat)
      in if 48 \<le> n \<and> n \<le> 57 then n - 48
         else if 97 \<le> n \<and> n \<le> 102 then n - 87
         else n - 55)"

fun hex_value :: "nat \<Rightarrow> string \<Rightarrow> nat" where
  "hex_value acc [] = acc"
| "hex_value acc (c # cs) = hex_value (acc * 16 + hex_digit_value c) cs"

text \<open>The prefix \<^verbatim>\<open>0x\<close> or \<^verbatim>\<open>0X\<close> is part of the number only before a hexadecimal digit.\<close>

definition has_0x_prefix :: "string \<Rightarrow> bool" where
  "has_0x_prefix s =
     (case s of
        c0 # c1 # c2 # _ \<Rightarrow> c0 = CHR ''0'' \<and> (c1 = CHR ''x'' \<or> c1 = CHR ''X'') \<and> isxdigit c2
      | _ \<Rightarrow> False)"

text \<open>
  \<^verbatim>\<open>std::stoi(str, nullptr, 16)\<close>: \<^verbatim>\<open>strtol\<close> skips white space, reads an optional sign, an
  optional prefix and the longest run of hexadecimal digits; \<^verbatim>\<open>std::stoi\<close> throws
  \<^verbatim>\<open>std::invalid_argument\<close> when there is no digit and \<^verbatim>\<open>std::out_of_range\<close> when the value
  is not an \<^verbatim>\<open>int\<close>.
\<close>

definition stoi16 :: "string \<Rightarrow> cpp_fault + int" where
  "stoi16 str =
     (let s1 = dropWhile isspace str;
          negative = (s1 \<noteq> [] \<and> hd s1 = CHR ''-'');
          s2 = (if s1 \<noteq> [] \<and> (hd s1 = CHR ''-'' \<or> hd s1 = CHR ''+'') then tl s1 else s1);
          s3 = (if has_0x_prefix s2 then drop 2 s2 else s2);
          digits = takeWhile isxdigit s3
      in if digits = [] then Inl StdInvalidArgument
         else
           let v = (if negative then - int (hex_value 0 digits) else int (hex_value 0 digits))
           in if v < - 2147483648 \<or> v > 2147483647 then Inl StdOutOfRange else Inr v)"

text \<open>\<^verbatim>\<open>static_cast<uint8_t>(std::stoi(hex.substr(pos, 2), nullptr, 16))\<close>.\<close>

definition hex_channel :: "string \<Rightarrow> nat \<Rightarrow> cpp_fault + u8" where
  "hex_channel hex pos =
     bind_sum (stoi16 (take 2 (drop pos hex))) (\<lambda>v. Inr (word_of_int v))"

text \<open>
  The background colour of \<^verbatim>\<open>CreateBlankImage\<close>: opaque white, replaced when the string
  is \<^verbatim>\<open>#\<close> and 6 or 8 further characters.
\<close>

definition parse_background :: "string \<Rightarrow> cpp_fault + u8 \<times> u8 \<times> u8 \<times> u8" where
  "parse_background strBgColor =
     (if strBgColor \<noteq> [] \<and> hd strBgColor = CHR ''#'' then
        let hex = drop 1 strBgColor in
        if length hex = 6 \<or> length hex = 8 then
          bind_sum (hex_channel hex 0) (\<lambda>r.
          bind_sum (hex_channel hex 2) (\<lambda>g.
          bind_sum (hex_channel hex 4) (\<lambda>b.
          if length hex = 8 then bind_sum (hex_channel hex 6) (\<lambda>a. Inr (r, g, b, a))
          else Inr (r, g, b, 255))))
        else Inr (255, 255, 255, 255)
      else Inr (255, 255, 255, 255))"

text \<open>
  A style colour of \<^verbatim>\<open>DrawFeatures\<close> (the fill and the stroke colour are parsed by the same
  lines): the initial channels \<open>dflt\<close>, replaced when the string is \<^verbatim>\<open>#\<close> and at least 6
  further characters.
\<close>

definition parse_style_rgb :: "string \<Rightarrow> u8 \<times> u8 \<times> u8 \<Rightarrow> cpp_fault + u8 \<times> u8 \<times> u8" where
  "parse_style_rgb color dflt =
     (if color \<noteq> [] \<and> hd color = CHR ''#'' then
        let hex = drop 1 color in
        if length hex \<ge> 6 then
          bind_sum (hex_channel hex 0) (\<lambda>r.
          bind_sum (hex_channel hex 2) (\<lambda>g.
          bind_sum (hex_channel hex 4) (\<lambda>b. Inr (r, g, b))))
        else Inr dflt
      else Inr dflt)"

text \<open>
  The byte that two hexadecimal digits at \<open>pos\<close> and \<open>pos + 1\<close> denote: the value a channel
  is stated to have when its field consists of digits.
\<close>

definition hex_pair :: "string \<Rightarrow> nat \<Rightarrow> u8" where
  "hex_pair hex pos =
     of_nat (16 * hex_digit_value (hex ! pos) + hex_digit_value (hex ! (pos + 1)))"

section \<open>The canvas (\<^verbatim>\<open>RenderEngine.cpp\<close>)\<close>

record RenderEngine =
  m_config :: ServerConfig
  m_strError :: string
  m_bInitialized :: bool

definition SetError :: "RenderEngine \<Rightarrow> string \<Rightarrow> RenderEngine" where
  "SetError eng strError = eng \<lparr> m_strError := strError \<rparr>"

text \<open>
  The loop \<^verbatim>\<open>for (size_t i = 0; i < nDataSize; i += 4)\<close>. The counter is a natural number:
  it is a multiple of 4 below \<open>nDataSize\<close>, so \<open>i + 4\<close> does not wrap.
\<close>

function fill_loop :: "nat \<Rightarrow> nat \<Rightarrow> u8 \<Rightarrow> u8 \<Rightarrow> u8 \<Rightarrow> u8 \<Rightarrow> u8 list \<Rightarrow> cpp_fault + u8 list" where
  "fill_loop i nDataSize r g b a vec =
     (if i < nDataSize then
        (case store_rgba vec i r g b a of
           Inl e \<Rightarrow> Inl e
         | Inr vec' \<Rightarrow> fill_loop (i + 4) nDataSize r g b a vec')
      else Inr vec)"
  by pat_completeness auto
termination
  by (relation "measure (\<lambda>(i, nDataSize, r, g, b, a, vec). nDataSize - i)") auto

declare fill_loop.simps [simp del]

text \<open>
  \<^verbatim>\<open>CreateBlankImage\<close> returns its \<^verbatim>\<open>bool\<close> or raises, and leaves the vector and the engine
  (its error string) as given in the second and third component.
\<close>

definition CreateBlankImage ::
  "RenderEngine \<Rightarrow> int \<Rightarrow> int \<Rightarrow> string \<Rightarrow> u8 list \<Rightarrow> (cpp_fault + bool) \<times> u8 list \<times> RenderEngine" where
  "CreateBlankImage eng nWidth nHeight strBgColor vecImageData =
     (if nWidth \<le> 0 \<or> nHeight \<le> 0 then
        (Inr False, vecImageData, SetError eng ''Invalid image dimensions'')
      else
        case parse_background strBgColor of
          Inl e \<Rightarrow> (Inl e, vecImageData, eng)
        | Inr (r, g, b, a) \<Rightarrow>
            let nDataSize = (word_of_int nWidth * word_of_int nHeight * 4 :: size_t);
                vec1 = vec_resize (unat nDataSize) vecImageData
            in (case fill_loop 0 (unat nDataSize) r g b a vec1 of
                  Inl e \<Rightarrow> (Inl e, vec1, eng)
                | Inr vec2 \<Rightarrow> (Inr True, vec2, eng)))"

text \<open>Division of \<^verbatim>\<open>int\<close> in C++ truncates towards zero.\<close>

definition c_div :: "int \<Rightarrow> int \<Rightarrow> int" where
  "c_div a b = sgn a * sgn b * (\<bar>a\<bar> div \<bar>b\<bar>)"

text \<open>
  The guarded store of \<^verbatim>\<open>DrawFeatures\<close>:
  \<^verbatim>\<open>size_t index = (static_cast<size_t>(y) * nWidth + x) * 4; if (index + 3 < vec.size()) ...\<close>,
  in the arithmetic of \<^verbatim>\<open>size_t\<close>.
\<close>

definition put_pixel ::
  "int \<Rightarrow> u8 \<Rightarrow> u8 \<Rightarrow> u8 \<Rightarrow> u8 \<Rightarrow> int \<Rightarrow> int \<Rightarrow> u8 list \<Rightarrow> cpp_fault + u8 list" where
  "put_pixel nWidth r g b a y x vec =
     (let index = ((word_of_int y * word_of_int nWidth + word_of_int x) * 4 :: size_t) in
      if index + 3 < of_nat (length vec) then store_rgba vec (unat index) r g b a
      else Inr vec)"

text \<open>A row \<open>y\<close> from \<open>startX\<close> to \<open>endX\<close>, and a column \<open>x\<close> from \<open>startY\<close> to \<open>endY\<close>.\<close>

definition draw_row ::
  "int \<Rightarrow> u8 \<Rightarrow> u8 \<Rightarrow> u8 \<Rightarrow> u8 \<Rightarrow> int \<Rightarrow> int \<Rightarrow> int \<Rightarrow> u8 list \<Rightarrow> cpp_fault + u8 list" where
  "draw_row nWidth r g b a startX endX y = for_range startX endX (put_pixel nWidth r g b a y)"

definition draw_column ::
  "int \<Rightarrow> u8 \<Rightarrow> u8 \<Rightarrow> u8 \<Rightarrow> u8 \<Rightarrow> int \<Rightarrow> int \<Rightarrow> int \<Rightarrow> u8 list \<Rightarrow> cpp_fault + u8 list" where
  "draw_column nWidth r g b a startY endY x =
     for_range startY endY (\<lambda>y. put_pixel nWidth r g b a y x)"

text \<open>The filled rectangle: rows \<open>startY\<close> to \<open>endY\<close>, columns \<open>startX\<close> to \<open>endX\<close>.\<close>

definition fill_rect ::
  "int \<Rightarrow> u8 \<Rightarrow> u8 \<Rightarrow> u8 \<Rightarrow> u8 \<Rightarrow> int \<Rightarrow> int \<Rightarrow> int \<Rightarrow> int \<Rightarrow> u8 list \<Rightarrow> cpp_fault + u8 list" where
  "fill_rect nWidth r g b a startX startY endX endY =
     for_range startY endY (draw_row nWidth r g b a startX endX)"

text \<open>
  The four border loops \<^verbatim>\<open>for (int w = 0; w < strokeWidth; ++w)\<close>, each with its own guard
  on the row or column it draws.
\<close>

definition top_border ::
  "int \<Rightarrow> int \<Rightarrow> u8 \<Rightarrow> u8 \<Rightarrow> u8 \<Rightarrow> u8 \<Rightarrow> int \<Rightarrow> int \<Rightarrow> int \<Rightarrow> int \<Rightarrow> u8 list
     \<Rightarrow> cpp_fault + u8 list" where
  "top_border nWidth nHeight r g b a strokeWidth startX startY endX =
     for_range 0 (strokeWidth - 1) (\<lambda>w vec.
       let y = startY + w in
       if y < nHeight then draw_row nWidth r g b a startX endX y vec else Inr vec)"

definition bottom_border ::
  "int \<Rightarrow> u8 \<Rightarrow> u8 \<Rightarrow> u8 \<Rightarrow> u8 \<Rightarrow> int \<Rightarrow> int \<Rightarrow> int \<Rightarrow> int \<Rightarrow> u8 list \<Rightarrow> cpp_fault + u8 list" where
  "bottom_border nWidth r g b a strokeWidth startX endX endY =
     for_range 0 (strokeWidth - 1) (\<lambda>w vec.
       let y = endY - w in
       if y \<ge> 0 then draw_row nWidth r g b a startX endX y vec else Inr vec)"

definition left_border ::
  "int \<Rightarrow> u8 \<Rightarrow> u8 \<Rightarrow> u8 \<Rightarrow> u8 \<Rightarrow> int \<Rightarrow> int \<Rightarrow> int \<Rightarrow> int \<Rightarrow> u8 list \<Rightarrow> cpp_fault + u8 list" where
  "left_border nWidth r g b a strokeWidth startX startY endY =
     for_range 0 (strokeWidth - 1) (\<lambda>w vec.
       let x = startX + w in
       if x < nWidth then draw_column nWidth r g b a startY endY x vec else Inr vec)"

definition right_border ::
  "int \<Rightarrow> u8 \<Rightarrow> u8 \<Rightarrow> u8 \<Rightarrow> u8 \<Rightarrow> int \<Rightarrow> int \<Rightarrow> int \<Rightarrow> int \<Rightarrow> u8 list \<Rightarrow> cpp_fault + u8 list" where
  "right_border nWidth r g b a strokeWidth endX startY endY =
     for_range 0 (strokeWidth - 1) (\<lambda>w vec.
       let x = endX - w in
       if x \<ge> 0 then draw_column nWidth r g b a startY endY x vec else Inr vec)"

text \<open>
  \<^verbatim>\<open>DrawFeatures\<close>: the placeholder rectangle and its four borders. The feature list and the
  bounding box are not read. The result is the \<^verbatim>\<open>bool\<close> returned or the fault raised, and
  the vector as the call leaves it.
\<close>

definition DrawFeatures ::
  "LayerStyle \<Rightarrow> u8 list \<Rightarrow> int \<Rightarrow> int \<Rightarrow> double BoundingBox
     \<Rightarrow> (cpp_fault + bool) \<times> u8 list" where
  "DrawFeatures style vecImageData nWidth nHeight bbox =
     (case parse_style_rgb (m_strFillColor style) (255, 0, 0) of
        Inl e \<Rightarrow> (Inl e, vecImageData)
      | Inr (r, g, b) \<Rightarrow>
          let a = (word_of_int (m_nOpacity style) :: u8);
              centerX = c_div nWidth 2;
              centerY = c_div nHeight 2;
              rectWidth = c_div nWidth 4;
              rectHeight = c_div nHeight 4;
              startX0 = centerX - c_div rectWidth 2;
              startY0 = centerY - c_div rectHeight 2;
              endX0 = startX0 + rectWidth;
              endY0 = startY0 + rectHeight;
              startX = max 0 startX0;
              startY = max 0 startY0;
              endX = min (nWidth - 1) endX0;
              endY = min (nHeight - 1) endY0
          in
          (case fill_rect nWidth r g b a startX startY endX endY vecImageData of
             Inl e \<Rightarrow> (Inl e, vecImageData)
           | Inr vec1 \<Rightarrow>
               (case parse_style_rgb (m_strStrokeColor style) (0, 0, 0) of
                  Inl e \<Rightarrow> (Inl e, vec1)
                | Inr (strokeR, strokeG, strokeB) \<Rightarrow>
                    let strokeWidth = max 1 (m_nStrokeWidth style) in
                    (case
                       bind_sum (top_border nWidth nHeight strokeR strokeG strokeB a
                                   strokeWidth startX startY endX vec1) (\<lambda>v1.
                       bind_sum (bottom_border nWidth strokeR strokeG strokeB a
                                   strokeWidth startX endX endY v1) (\<lambda>v2.
                       bind_sum (left_border nWidth strokeR strokeG strokeB a
                                   strokeWidth startX startY endY v2) (\<lambda>v3.
                       right_border nWidth strokeR strokeG strokeB a
                                   strokeWidth endX startY endY v3))) of
                       Inl e \<Rightarrow> (Inl e, vec1)
                     | Inr vec2 \<Rightarrow> (Inr True, vec2)))))"

text \<open>
  How a call of \<^verbatim>\<open>DrawFeatures\<close> with a given style ends, read off its two colours: the
  fault of the fill colour, else the fault of the stroke colour, else \<^verbatim>\<open>true\<close>.
\<close>

definition style_outcome :: "LayerStyle \<Rightarrow> cpp_fault + bool" where
  "style_outcome style =
     (case parse_style_rgb (m_strFillColor style) (255, 0, 0) of
        Inl e \<Rightarrow> Inl e
      | Inr fill \<Rightarrow>
          (case parse_style_rgb (m_strStrokeColor style) (0, 0, 0) of
             Inl e \<Rightarrow> Inl e
           | Inr stroke \<Rightarrow> Inr True))"

section \<open>Rendering a request (\<^verbatim>\<open>RenderEngine.cpp\<close>)\<close>

text \<open>
  The PNG encoder is libpng behind \<^verbatim>\<open>PngEncoder\<close>: \<open>EncodeToMemory\<close> gives the bytes, or
  \<open>None\<close> when it returns \<^verbatim>\<open>false\<close>; \<open>fresh_encoder_error\<close> is \<^verbatim>\<open>PngEncoder().GetError()\<close>.
\<close>

record png_library =
  EncodeToMemory :: "u8 list \<Rightarrow> int \<Rightarrow> int \<Rightarrow> u8 list option"
  fresh_encoder_error :: string

text \<open>The style \<^verbatim>\<open>RenderMap\<close> builds when the request names no layer: stroke width 2.\<close>

definition defaultStyle :: LayerStyle where
  "defaultStyle =
     LayerStyle_default \<lparr> m_strFillColor := ''#cccccc'', m_strStrokeColor := ''#000000'',
                          m_nStrokeWidth := 2 \<rparr>"

text \<open>The loop \<^verbatim>\<open>for (const auto& layerName : request.m_vecLayers)\<close> of \<^verbatim>\<open>RenderMap\<close>.\<close>

fun RenderMap_layers :: "MapRequest \<Rightarrow> string list \<Rightarrow> u8 list \<Rightarrow> (cpp_fault + bool) \<times> u8 list" where
  "RenderMap_layers request [] vecImageData = (Inr True, vecImageData)"
| "RenderMap_layers request (layerName # rest) vecImageData =
     (let style = (case m_mapStyles request layerName of
                     Some s \<Rightarrow> s
                   | None \<Rightarrow> LayerStyle_default)
      in case DrawFeatures style vecImageData (m_nWidth request) (m_nHeight request)
                (m_bbox request) of
           (Inl e, vec') \<Rightarrow> (Inl e, vec')
         | (Inr ok, vec') \<Rightarrow>
             if \<not> ok then (Inr False, vec') else RenderMap_layers request rest vec')"

text \<open>
  \<^verbatim>\<open>RenderMap\<close>: \<open>Inr (Some png)\<close> when it returns \<^verbatim>\<open>true\<close> with the PNG bytes, \<open>Inr None\<close>
  when it returns \<^verbatim>\<open>false\<close> (the message is in the engine returned), \<open>Inl\<close> when an
  exception leaves it.
\<close>

definition RenderMap ::
  "png_library \<Rightarrow> RenderEngine \<Rightarrow> MapRequest \<Rightarrow> (cpp_fault + u8 list option) \<times> RenderEngine" where
  "RenderMap png eng request =
     (if \<not> m_bInitialized eng then (Inr None, SetError eng ''RenderEngine not initialized'')
      else if \<not> IsValid (m_bbox request) then (Inr None, SetError eng ''Invalid bounding box'')
      else if m_nWidth request \<le> 0 \<or> m_nHeight request \<le> 0 \<or>
              m_nWidth request > m_nMaxImageWidth (m_config eng) \<or>
              m_nHeight request > m_nMaxImageHeight (m_config eng)
      then (Inr None, SetError eng ''Invalid image dimensions'')
      else
        case CreateBlankImage eng (m_nWidth request) (m_nHeight request)
               (m_strBackgroundColor request) [] of
          (Inl e, vec0, eng1) \<Rightarrow> (Inl e, eng1)
        | (Inr created, vecImageData, eng1) \<Rightarrow>
            if \<not> created then (Inr None, eng1)
            else
              (case (if m_vecLayers request = [] then
                      DrawFeatures defaultStyle vecImageData (m_nWidth request)
                        (m_nHeight request) (m_bbox request)
                    else RenderMap_layers request (m_vecLayers request) vecImageData) of
                (Inl e, vec') \<Rightarrow> (Inl e, eng1)
              | (Inr drawn, vec') \<Rightarrow>
                  if \<not> drawn then (Inr None, eng1)
                  else
                    (case EncodeToMemory png vec' (m_nWidth request) (m_nHeight request) of
                       Some vecPngData \<Rightarrow> (Inr (Some vecPngData), eng1)
                     | None \<Rightarrow>
                         (Inr None,
                          SetError eng1
                            (''Failed to encode PNG: '' @ fresh_encoder_error png)))))"

subsection \<open>The compositing order in the words of the specification\<close>

text \<open>
  The checks of \<^verbatim>\<open>RenderMap\<close> itself: the engine is initialised, the box is valid, and the
  two dimensions are positive and within the configured maxima.
\<close>

definition passes_checks :: "RenderEngine \<Rightarrow> MapRequest \<Rightarrow> bool" where
  "passes_checks eng request \<longleftrightarrow>
     m_bInitialized eng \<and> IsValid (m_bbox request) \<and>
     0 < m_nWidth request \<and> m_nWidth request \<le> m_nMaxImageWidth (m_config eng) \<and>
     0 < m_nHeight request \<and> m_nHeight request \<le> m_nMaxImageHeight (m_config eng)"

text \<open>
  The styles to composite, in order: one default style when the request names no layer,
  else for each named layer its style from the request's map, or a default style.
\<close>

definition spec_layer_styles :: "MapRequest \<Rightarrow> LayerStyle list" where
  "spec_layer_styles request =
     (if m_vecLayers request = [] then [defaultStyle]
      else map (\<lambda>layerName. case m_mapStyles request layerName of
                                 Some style \<Rightarrow> style
                               | None \<Rightarrow> LayerStyle_default)
             (m_vecLayers request))"

text \<open>One placeholder per style, each drawn onto the canvas the earlier ones left.\<close>

definition spec_composite ::
  "LayerStyle list \<Rightarrow> int \<Rightarrow> int \<Rightarrow> double BoundingBox \<Rightarrow> u8 list \<Rightarrow> u8 list" where
  "spec_composite styles nWidth nHeight bbox canvas =
     foldl (\<lambda>vec style. snd (DrawFeatures style vec nWidth nHeight bbox)) canvas styles"

text \<open>The fault of the first style in the list whose colours raise one, if any.\<close>

definition first_fault :: "LayerStyle list \<Rightarrow> cpp_fault option" where
  "first_fault styles =
     (case find (\<lambda>style. style_outcome style \<noteq> Inr True) styles of
        None \<Rightarrow> None
      | Some style \<Rightarrow> (case style_outcome style of Inl e \<Rightarrow> Some e | Inr ok \<Rightarrow> None))"

section \<open>World to pixel (\<^verbatim>\<open>RenderEngine.cpp\<close>)\<close>

datatype pixel_result =
    ReturnsFalse          \<comment> \<open>returns \<^verbatim>\<open>false\<close>, the outputs untouched\<close>
  | UndefinedCast         \<comment> \<open>a cast to \<^verbatim>\<open>int\<close> that is undefined\<close>
  | Pixel int int         \<comment> \<open>returns \<^verbatim>\<open>true\<close> with \<open>nPixelX\<close>, \<open>nPixelY\<close>\<close>

definition WorldToPixel ::
  "double \<Rightarrow> double \<Rightarrow> double BoundingBox \<Rightarrow> int \<Rightarrow> int \<Rightarrow> pixel_result" where
  "WorldToPixel dWorldX dWorldY bbox nWidth nHeight =
     (if \<not> IsValid bbox \<or> nWidth \<le> 0 \<or> nHeight \<le> 0 then ReturnsFalse
      else
        let dXPercent = (dWorldX - m_dMinX bbox) / Width bbox;
            dYPercent = (dWorldY - m_dMinY bbox) / Height bbox
        in case (double_to_int (dXPercent * int_to_double nWidth),
                 double_to_int ((1 - dYPercent) * int_to_double nHeight)) of
             (Some nPixelX, Some nPixelY) \<Rightarrow>
               Pixel (max 0 (min (nWidth - 1) nPixelX)) (max 0 (min (nHeight - 1) nPixelY))
           | _ \<Rightarrow> UndefinedCast)"

subsection \<open>The same lines in exact arithmetic\<close>



section \<open>Request validation (\<^verbatim>\<open>HttpServer.cpp\<close>)\<close>

definition is_layer_char :: "char \<Rightarrow> bool" where
  "is_layer_char c =
     (let n = (of_char c :: nat)
      in (97 \<le> n \<and> n \<le> 122) \<or> (65 \<le> n \<and> n \<le> 90) \<or> (48 \<le> n \<and> n \<le> 57) \<or>
         c = CHR ''_'' \<or> c = CHR ''-'')"

text \<open>The loop over \<^verbatim>\<open>request.m_vecLayers\<close>; \<open>CHR 0x27\<close> is the single quote of the message.\<close>

fun validate_layers :: "string list \<Rightarrow> string + unit" where
  "validate_layers [] = Inr ()"
| "validate_layers (layer # rest) =
     (if layer = [] then Inl ''Layer names cannot be empty''
      else if \<not> list_all is_layer_char layer then
        Inl (''Layer name '' @ [CHR 0x27] @ layer @ [CHR 0x27] @
             '' contains invalid characters. '' @
             ''Only letters, numbers, underscores and hyphens are allowed'')
      else validate_layers rest)"

text \<open>
  \<^verbatim>\<open>ValidateMapRequestParameters\<close>: \<open>Inl\<close> is \<^verbatim>\<open>false\<close> with the message left in \<^verbatim>\<open>strError\<close>,
  \<open>Inr\<close> is \<^verbatim>\<open>true\<close>. Each rule returns at once.
\<close>

definition ValidateMapRequestParameters :: "ServerConfig \<Rightarrow> MapRequest \<Rightarrow> string + unit" where
  "ValidateMapRequestParameters config request =
     (let minX = m_dMinX (m_bbox request);
          minY = m_dMinY (m_bbox request);
          maxX = m_dMaxX (m_bbox request);
          maxY = m_dMaxY (m_bbox request);
          color = m_strBackgroundColor request
      in
      if \<not> IsValid (m_bbox request) then
        Inl ''Invalid bounding box. minX must be less than maxX and minY less than maxY''
      else if minX < to_double (- 180) \<or> maxX > to_double 180 then
        Inl ''Longitude values must be between -180 and 180 degrees''
      else if minY < to_double (- 90) \<or> maxY > to_double 90 then
        Inl ''Latitude values must be between -90 and 90 degrees''
      else if m_nWidth request \<le> 0 \<or> m_nHeight request \<le> 0 then
        Inl ''Image width and height must be positive''
      else if m_nWidth request > m_nMaxImageWidth config then
        Inl (''Image width exceeds maximum allowed value of '' @
             to_string_int (m_nMaxImageWidth config))
      else if m_nHeight request > m_nMaxImageHeight config then
        Inl (''Image height exceeds maximum allowed value of '' @
             to_string_int (m_nMaxImageHeight config))
      else if color \<noteq> [] \<and> (hd color \<noteq> CHR ''#'' \<or> (length color \<noteq> 7 \<and> length color \<noteq> 4)) then
        Inl ''Background color must be in format #RRGGBB or #RGB''
      else if color \<noteq> [] \<and> \<not> list_all isxdigit (drop 1 color) then
        Inl ''Background color contains invalid hexadecimal characters''
      else validate_layers (m_vecLayers request))"

text \<open>
  The first rule in the words of the specification: a valid box within \<open>[-180, 180]\<close> of
  longitude and \<open>[-90, 90]\<close> of latitude.
\<close>

definition spec_bbox_in_world :: "double BoundingBox \<Rightarrow> bool" where
  "spec_bbox_in_world bbox \<longleftrightarrow>
     m_dMinX bbox < m_dMaxX bbox \<and> m_dMinY bbox < m_dMaxY bbox \<and>
     to_double (- 180) \<le> m_dMinX bbox \<and> m_dMaxX bbox \<le> to_double 180 \<and>
     to_double (- 90) \<le> m_dMinY bbox \<and> m_dMaxY bbox \<le> to_double 90"

text \<open>
  \<^verbatim>\<open>HandleGenerateRequest\<close> after \<^verbatim>\<open>ParseMapRequest\<close> has produced the request: the body of
  the response and its content type. The JSON text that \<^verbatim>\<open>GenerateErrorResponse\<close> builds
  from a code and a message is kept as the pair; the file written and the headers are not
  modelled. An exception of \<^verbatim>\<open>RenderMap\<close> is not caught here.
\<close>

datatype response_body =
    GenerateErrorResponse string string
  | PngData "u8 list"

definition HandleGenerateRequest ::
  "png_library \<Rightarrow> ServerConfig \<Rightarrow> RenderEngine \<Rightarrow> MapRequest
     \<Rightarrow> cpp_fault + (response_body \<times> string) \<times> RenderEngine" where
  "HandleGenerateRequest png config eng request =
     (case ValidateMapRequestParameters config request of
        Inl validationError \<Rightarrow>
          Inr ((GenerateErrorResponse ''INVALID_REQUEST'' validationError, ''application/json''),
               eng)
      | Inr _ \<Rightarrow>
          (case RenderMap png eng request of
             (Inl e, eng') \<Rightarrow> Inl e
           | (Inr None, eng') \<Rightarrow>
               Inr ((GenerateErrorResponse ''RENDER_FAILED'' (m_strError eng'),
                     ''application/json''), eng')
           | (Inr (Some vecPngData), eng') \<Rightarrow> Inr ((PngData vecPngData, ''image/png''), eng')))"

section \<open>The cache key (\<^verbatim>\<open>RenderEngine.cpp\<close>)\<close>

text \<open>The loop \<^verbatim>\<open>for (const auto& layer : m_vecLayers) oss << ",layer:" << layer\<close>.\<close>

fun append_layers :: "string \<Rightarrow> string list \<Rightarrow> string" where
  "append_layers oss [] = oss"
| "append_layers oss (layer # rest) = append_layers (oss @ '',layer:'' @ layer) rest"

text \<open>
  The contents of the stream, \<^verbatim>\<open>oss.str()\<close>. \<open>put_double\<close> is the output of a \<^verbatim>\<open>double\<close> on a
  stream in its default format.
\<close>

definition CacheKeyString :: "(double \<Rightarrow> string) \<Rightarrow> MapRequest \<Rightarrow> string" where
  "CacheKeyString put_double request =
     append_layers
       (put_double (m_dMinX (m_bbox request)) @ '','' @
        put_double (m_dMinY (m_bbox request)) @ '','' @
        put_double (m_dMaxX (m_bbox request)) @ '','' @
        put_double (m_dMaxY (m_bbox request)) @ '','' @
        to_string_int (m_nWidth request) @ ''x'' @ to_string_int (m_nHeight request) @
        '',bg:'' @ m_strBackgroundColor request)
       (m_vecLayers request)"

text \<open>
  \<^verbatim>\<open>GenerateCacheKey\<close>: the decimal digits of \<^verbatim>\<open>std::hash<std::string>\<close> of the stream's
  contents; \<open>std_hash\<close> is that hash.
\<close>

definition GenerateCacheKey ::
  "(double \<Rightarrow> string) \<Rightarrow> (string \<Rightarrow> size_t) \<Rightarrow> MapRequest \<Rightarrow> string" where
  "GenerateCacheKey put_double std_hash request =
     to_string_nat (unat (std_hash (CacheKeyString put_double request)))"

text \<open>
  Two requests equal field for field, as the operator \<^verbatim>\<open>==\<close> of each field's type compares
  them.
\<close>

definition fields_equal :: "MapRequest \<Rightarrow> MapRequest \<Rightarrow> bool" where
  "fields_equal r1 r2 \<longleftrightarrow>
     double_eq (m_dMinX (m_bbox r1)) (m_dMinX (m_bbox r2)) \<and>
     double_eq (m_dMinY (m_bbox r1)) (m_dMinY (m_bbox r2)) \<and>
     double_eq (m_dMaxX (m_bbox r1)) (m_dMaxX (m_bbox r2)) \<and>
     double_eq (m_dMaxY (m_bbox r1)) (m_dMaxY (m_bbox r2)) \<and>
     m_nWidth r1 = m_nWidth r2 \<and> m_nHeight r1 = m_nHeight r2 \<and>
     m_vecLayers r1 = m_vecLayers r2 \<and> m_mapStyles r1 = m_mapStyles r2 \<and>
     m_strBackgroundColor r1 = m_strBackgroundColor r2 \<and> m_strFilter r1 = m_strFilter r2"

text \<open>The coordinates of two boxes have the same sign bits.\<close>

definition same_signs :: "double BoundingBox \<Rightarrow> double BoundingBox \<Rightarrow> bool" where
  "same_signs b1 b2 \<longleftrightarrow>
     sign_bit (m_dMinX b1) = sign_bit (m_dMinX b2) \<and>
     sign_bit (m_dMinY b1) = sign_bit (m_dMinY b2) \<and>
     sign_bit (m_dMaxX b1) = sign_bit (m_dMaxX b2) \<and>
     sign_bit (m_dMaxY b1) = sign_bit (m_dMaxY b2)"

text \<open>A layer name without a comma, the character that starts each entry of the key.\<close>

definition comma_free :: "string \<Rightarrow> bool" where
  "comma_free layer \<longleftrightarrow> CHR '','' \<notin> set layer"

text \<open>
  A list of the layers \<^verbatim>\<open>a\<close> and \<^verbatim>\<open>b\<close>, two at a time: \<^verbatim>\<open>a\<close>, \<^verbatim>\<open>b\<close> for \<open>True\<close> and \<^verbatim>\<open>b\<close>, \<^verbatim>\<open>a\<close>
  for \<open>False\<close>. All such lists of one length are reorderings of one another.
\<close>

definition swapped_pairs :: "bool list \<Rightarrow> string list" where
  "swapped_pairs bs = concat (map (\<lambda>b. if b then [''a'', ''b''] else [''b'', ''a'']) bs)"

subsection \<open>One standard library\<close>

text \<open>
  The usual stream output of a \<^verbatim>\<open>double\<close> (the format \<^verbatim>\<open>%g\<close> with six significant digits)
  and the 64-bit FNV-1a hash that one common implementation of \<^verbatim>\<open>std::hash<std::string>\<close>
  uses. They instantiate the two parameters where a closed statement needs them.
\<close>

text \<open>The decimal exponent of \<open>v > 0\<close>: the \<open>e\<close> with \<open>10^e \<le> v < 10^(e+1)\<close>.\<close>

definition decimal_exponent :: "real \<Rightarrow> int" where
  "decimal_exponent v =
     (if v \<ge> 1 then int (floorlog 10 (nat \<lfloor>v\<rfloor>)) - 1
      else - int (floorlog 10 (nat \<lceil>1 / v\<rceil> - 1)))"

definition strip_trailing_zeros :: "string \<Rightarrow> string" where
  "strip_trailing_zeros s =
     (let t = rev (dropWhile (\<lambda>c. c = CHR ''0'') (rev s))
      in if t \<noteq> [] \<and> last t = CHR ''.'' then butlast t else t)"

definition put_double_positive :: "real \<Rightarrow> string" where
  "put_double_positive v =
     (let e0 = decimal_exponent v;
          m0 = round_half_even (v * 10 powi (5 - e0));
          m = (if m0 \<ge> 1000000 then 100000 else m0);
          e = (if m0 \<ge> 1000000 then e0 + 1 else e0);
          ds = to_string_nat (nat m)
      in if - 4 \<le> e \<and> e < 6 then
           (if e \<ge> 0 then
              strip_trailing_zeros (take (nat e + 1) ds @ ''.'' @ drop (nat e + 1) ds)
            else strip_trailing_zeros (''0.'' @ replicate (nat (- e - 1)) (CHR ''0'') @ ds))
         else
           strip_trailing_zeros (take 1 ds @ ''.'' @ drop 1 ds) @ ''e'' @
           (if e < 0 then ''-'' else ''+'') @
           (if \<bar>e\<bar> < 10 then ''0'' else []) @ to_string_nat (nat \<bar>e\<bar>))"

definition put_double_g :: "double \<Rightarrow> string" where
  "put_double_g d =
     (if sign_bit d then ''-'' else []) @
     (if isnan d then ''nan''
      else if isinf d then ''inf''
      else if magnitude d = 0 then ''0''
      else put_double_positive \<bar>valof d\<bar>)"

definition fnv1a_64 :: "string \<Rightarrow> size_t" where
  "fnv1a_64 s =
     foldl (\<lambda>h c. (h XOR of_nat (of_char c)) * 1099511628211) 14695981039346656037 s"

section \<open>The floating-point model\<close>

text \<open>The equations that evaluate an operation on given \<^verbatim>\<open>double\<close>s.\<close>

lemmas double_eval = times_double_def double_mul_def divide_double_def double_div_def
  minus_double_def double_sub_def less_double_def less_eq_double_def
  isnan_def isinf_def isfinite_def valof_def ldexp_def mantissa_def exponent_def
  exponent_field_def fraction_field_def round_magnitude_def round_with_exponent_def
  round_to_double_def binary_exponent_def round_half_even_def Let_def compute_floorlog
  infinity_def to_double_def int_to_double_def zero_double_def one_double_def double_neg_def
  uminus_double_def quiet_NaN_def double_to_int_def truncate_toward_zero_def fits_int_def
  double_eq_def

subsection \<open>The value of a \<^verbatim>\<open>double\<close> and its bits\<close>

lemma ldexp_scaled:
  assumes "1 \<le> E"
  shows "ldexp (of_nat m) (int E - 1075) = of_nat (m * 2 ^ (E - 1)) / 2 ^ 1074"
proof (cases "1075 \<le> E")
  case True
  then have e: "E - 1 = (E - 1075) + 1074" by simp
  have n: "nat (int E - 1075) = E - 1075" using True by simp
  have "(2::real) ^ (E - 1) = 2 ^ (E - 1075) * 2 ^ 1074"
    unfolding e by (rule power_add)
  then show ?thesis
    using True by (simp add: ldexp_def n)
next
  case False
  then have e: "1074 = (E - 1) + (1075 - E)" using assms by simp
  have n: "nat (1075 - int E) = 1075 - E" using False by simp
  have p: "(2::real) ^ 1074 = 2 ^ (E - 1) * 2 ^ (1075 - E)"
    by (subst e) (rule power_add)
  have "ldexp (of_nat m) (int E - 1075) = of_nat m / 2 ^ (1075 - E)"
    using False n by (simp add: ldexp_def)
  also have "\<dots> = of_nat (m * 2 ^ (E - 1)) / 2 ^ 1074"
    unfolding p by simp
  finally show ?thesis .
qed

lemma abs_valof_scaled:
  "ldexp (of_nat (mantissa d)) (exponent d) = of_nat (scaled_magnitude d) / 2 ^ 1074"
proof (cases "exponent_field d = 0")
  case True
  then show ?thesis
    by (simp add: mantissa_def exponent_def scaled_magnitude_def ldexp_def)
next
  case False
  then have "1 \<le> exponent_field d" by simp
  from ldexp_scaled [OF this, of "2 ^ 52 + fraction_field d"] False show ?thesis
    by (simp add: mantissa_def exponent_def scaled_magnitude_def)
qed

lemma valof_scaled:
  "valof d =
     (if sign_bit d then - of_nat (scaled_magnitude d) / 2 ^ 1074
      else of_nat (scaled_magnitude d) / 2 ^ 1074)"
  by (simp add: valof_def abs_valof_scaled)

lemma scaled_magnitude_upper:
  "scaled_magnitude d < 2 ^ (52 + exponent_field d)"
proof (cases "exponent_field d = 0")
  case True
  then show ?thesis by (simp add: scaled_magnitude_def fraction_field_def)
next
  case False
  then obtain k where k: "exponent_field d = Suc k" by (cases "exponent_field d") auto
  have "fraction_field d < 2 ^ 52" by (simp add: fraction_field_def)
  then have "2 ^ 52 + fraction_field d < 2 * 2 ^ 52" by simp
  then have "(2 ^ 52 + fraction_field d) * 2 ^ k < (2 * 2 ^ 52) * 2 ^ k"
    by (intro mult_strict_right_mono) simp_all
  also have "\<dots> = 2 ^ (52 + Suc k)" by (simp add: power_add)
  finally show ?thesis using k by (simp add: scaled_magnitude_def)
qed

lemma scaled_magnitude_lower:
  assumes "1 \<le> exponent_field d"
  shows "2 ^ (52 + (exponent_field d - 1)) \<le> scaled_magnitude d"
proof -
  have ne: "exponent_field d \<noteq> 0" using assms by simp
  have "2 ^ (52 + (exponent_field d - 1)) = (2::nat) ^ 52 * 2 ^ (exponent_field d - 1)"
    by (rule power_add)
  also have "\<dots> \<le> (2 ^ 52 + fraction_field d) * 2 ^ (exponent_field d - 1)"
    by (intro mult_right_mono) simp_all
  also have "\<dots> = scaled_magnitude d"
    using ne by (simp only: scaled_magnitude_def if_False)
  finally show ?thesis .
qed

text \<open>The bits of the magnitude order the magnitudes.\<close>

lemma scaled_magnitude_mono:
  assumes "unat (magnitude a) < unat (magnitude b)"
  shows "scaled_magnitude a < scaled_magnitude b"
proof -
  have le: "exponent_field a \<le> exponent_field b"
    using assms unfolding exponent_field_def by (intro div_le_mono) simp
  show ?thesis
  proof (cases "exponent_field a = exponent_field b")
    case True
    have "unat (magnitude a) = exponent_field a * 2 ^ 52 + fraction_field a"
      "unat (magnitude b) = exponent_field b * 2 ^ 52 + fraction_field b"
      by (simp_all add: exponent_field_def fraction_field_def)
    with assms True have "fraction_field a < fraction_field b" by simp
    then show ?thesis using True by (simp add: scaled_magnitude_def)
  next
    case False
    with le have lt: "exponent_field a < exponent_field b" by simp
    then have b1: "1 \<le> exponent_field b" by simp
    have "scaled_magnitude a < 2 ^ (52 + exponent_field a)"
      by (rule scaled_magnitude_upper)
    also have "\<dots> \<le> 2 ^ (52 + (exponent_field b - 1))"
      using lt by (intro power_increasing) simp_all
    also have "\<dots> \<le> scaled_magnitude b"
      by (rule scaled_magnitude_lower [OF b1])
    finally show ?thesis .
  qed
qed

lemma scaled_magnitude_inj:
  assumes "scaled_magnitude a = scaled_magnitude b"
  shows "magnitude a = magnitude b"
proof -
  have "\<not> unat (magnitude a) < unat (magnitude b)" "\<not> unat (magnitude b) < unat (magnitude a)"
    using scaled_magnitude_mono [of a b] scaled_magnitude_mono [of b a] assms by auto
  then have "unat (magnitude a) = unat (magnitude b)" by simp
  then show ?thesis by (simp add: word_unat_eq_iff)
qed

lemma scaled_magnitude_zero_iff: "scaled_magnitude d = 0 \<longleftrightarrow> magnitude d = 0"
proof
  assume z: "scaled_magnitude d = 0"
  have "scaled_magnitude (Double False 0) = 0"
    by (simp add: scaled_magnitude_def exponent_field_def fraction_field_def)
  with z have "magnitude d = magnitude (Double False 0)"
    by (intro scaled_magnitude_inj) simp
  then show "magnitude d = 0" by simp
next
  assume "magnitude d = 0"
  then show "scaled_magnitude d = 0"
    by (simp add: scaled_magnitude_def exponent_field_def fraction_field_def)
qed


text \<open>
  Two \<^verbatim>\<open>double\<close>s that \<^verbatim>\<open>==\<close> holds of are the same bits when their signs agree, and are
  the two zeros otherwise.
\<close>

lemma double_eq_identical:
  assumes "double_eq a b" "sign_bit a = sign_bit b"
  shows "a = b"
proof -
  have "valof a = valof b" using assms(1) by (simp add: double_eq_def)
  then have "(of_nat (scaled_magnitude a) :: real) = of_nat (scaled_magnitude b)"
    using assms(2) by (simp add: valof_scaled split: if_splits)
  then have "scaled_magnitude a = scaled_magnitude b" by simp
  then have "magnitude a = magnitude b" by (rule scaled_magnitude_inj)
  with assms(2) show ?thesis by (simp add: double.expand)
qed

lemma double_eq_zeros:
  assumes "double_eq a b" "sign_bit a \<noteq> sign_bit b"
  shows "magnitude a = 0 \<and> magnitude b = 0"
proof -
  have v: "valof a = valof b" using assms(1) by (simp add: double_eq_def)
  have p: "(0::real) \<le> of_nat (scaled_magnitude a) / 2 ^ 1074"
    "(0::real) \<le> of_nat (scaled_magnitude b) / 2 ^ 1074" by simp_all
  have "of_nat (scaled_magnitude a) / (2::real) ^ 1074 = 0 \<and>
      of_nat (scaled_magnitude b) / (2::real) ^ 1074 = 0"
    using v assms(2) p unfolding valof_scaled by (cases "sign_bit a"; cases "sign_bit b") auto
  then show ?thesis
    by (simp add: scaled_magnitude_zero_iff)
qed


lemma double_le_not_less:
  fixes a b :: double
  shows "a \<le> b \<Longrightarrow> \<not> b < a"
  by (simp add: less_eq_double_def less_double_def)

subsection \<open>Rounding\<close>







subsection \<open>Differences and quotients\<close>










lemma unit_box_valid:
  "IsValid \<lparr> m_dMinX = 0 :: double, m_dMinY = 0, m_dMaxX = 1, m_dMaxY = 1 \<rparr>"
  "\<not> IsValid \<lparr> m_dMinX = 1 :: double, m_dMinY = 0, m_dMaxX = 1, m_dMaxY = 1 \<rparr>"
  by (simp_all add: IsValid_def double_eval)

section \<open>Tile parameter validation\<close>

lemma ValidateTileParameters_accepts_iff:
  "ValidateTileParameters z x y = Inr () \<longleftrightarrow>
     0 \<le> z \<and> z \<le> 20 \<and> 0 \<le> x \<and> x \<le> 2 ^ nat z - 1 \<and> 0 \<le> y \<and> y \<le> 2 ^ nat z - 1"
  by (auto simp: ValidateTileParameters_def Let_def)

text \<open>
  Claim C7. \<^verbatim>\<open>ValidateTileParameters\<close> accepts exactly the triples with \<open>z\<close> in \<open>[0, 20]\<close> and
  \<open>x\<close>, \<open>y\<close> in \<open>[0, 2^z - 1]\<close>. For every other triple it returns a message, and
  \<^verbatim>\<open>HandleTileRequest\<close> answers with status 400, an empty body and no tile box, whatever the
  encoder is: neither the image nor the box is computed.
\<close>

theorem tile_validation_exact:
  "(ValidateTileParameters z x y = Inr () \<longleftrightarrow>
      0 \<le> z \<and> z \<le> 20 \<and> 0 \<le> x \<and> x \<le> 2 ^ nat z - 1 \<and> 0 \<le> y \<and> y \<le> 2 ^ nat z - 1)
   \<and> (\<not> (0 \<le> z \<and> z \<le> 20 \<and> 0 \<le> x \<and> x \<le> 2 ^ nat z - 1 \<and> 0 \<le> y \<and> y \<le> 2 ^ nat z - 1) \<longrightarrow>
        (\<exists>msg. ValidateTileParameters z x y = Inl msg) \<and>
        HandleTileRequest enc z x y res =
          Inr (res \<lparr> res_status := Some 400, strContentType := ''application/json'',
                     vecResponse := [] \<rparr>))"
proof -
  have acc: "ValidateTileParameters z x y = Inr () \<longleftrightarrow>
      0 \<le> z \<and> z \<le> 20 \<and> 0 \<le> x \<and> x \<le> 2 ^ nat z - 1 \<and> 0 \<le> y \<and> y \<le> 2 ^ nat z - 1"
    by (rule ValidateTileParameters_accepts_iff)
  have rej: "\<exists>msg. ValidateTileParameters z x y = Inl msg"
    if "ValidateTileParameters z x y \<noteq> Inr ()"
    using that by (cases "ValidateTileParameters z x y") auto
  show ?thesis
    using acc rej by (auto simp: HandleTileRequest_def)
qed

theorem tile_validation_exact_witness:
  "(ValidateTileParameters 21 0 0 = Inl ''Zoom level must be between 0 and 20'') \<and>
   HandleTileRequest (\<lambda>img w h. Some img) 21 0 0
       \<lparr> res_status = None, x_bbox = None, vecResponse = [], strContentType = [] \<rparr> =
     Inr \<lparr> res_status = Some 400, x_bbox = None, vecResponse = [],
           strContentType = ''application/json'' \<rparr> \<and>
   ValidateTileParameters 20 1048575 0 = Inr () \<and>
   (\<exists>msg. ValidateTileParameters 20 1048576 0 = Inl msg)"
  using tile_validation_exact [of 21 0 0 "\<lambda>img w h. Some img"
      "\<lparr> res_status = None, x_bbox = None, vecResponse = [], strContentType = [] \<rparr>"]
    tile_validation_exact [of 20 1048575 0] tile_validation_exact [of 20 1048576 0]
  by (simp add: ValidateTileParameters_def)

section \<open>World to pixel\<close>

lemma truncate_in_int_range:
  "- 2147483648 \<le> truncate_toward_zero v \<and> truncate_toward_zero v \<le> 2147483647 \<longleftrightarrow>
   - 2147483649 < v \<and> v < 2147483648"
proof (cases "0 \<le> v")
  case True
  then have "0 \<le> \<lfloor>v\<rfloor>" by simp
  moreover have "\<lfloor>v\<rfloor> \<le> 2147483647 \<longleftrightarrow> v < 2147483648" by (simp add: floor_le_iff)
  ultimately show ?thesis using True by (simp add: truncate_toward_zero_def)
next
  case False
  then have "\<lceil>v\<rceil> \<le> 0" by (simp add: ceiling_le_iff)
  moreover have "- 2147483648 \<le> \<lceil>v\<rceil> \<longleftrightarrow> - 2147483649 < v" by (simp add: le_ceiling_iff)
  ultimately show ?thesis using False by (simp add: truncate_toward_zero_def)
qed

lemma double_to_int_fits:
  "double_to_int d = (if fits_int d then Some (truncate_toward_zero (valof d)) else None)"
  using truncate_in_int_range [of "valof d"]
  by (simp add: double_to_int_def fits_int_def)

text \<open>\<^verbatim>\<open>WorldToPixel\<close> with its two locals written out.\<close>

lemma WorldToPixel_eval:
  "WorldToPixel wx wy bbox w h =
     (if \<not> IsValid bbox \<or> w \<le> 0 \<or> h \<le> 0 then ReturnsFalse
      else case (double_to_int ((wx - m_dMinX bbox) / Width bbox * int_to_double w),
                 double_to_int ((1 - (wy - m_dMinY bbox) / Height bbox) * int_to_double h)) of
             (Some nPixelX, Some nPixelY) \<Rightarrow>
               Pixel (max 0 (min (w - 1) nPixelX)) (max 0 (min (h - 1) nPixelY))
           | _ \<Rightarrow> UndefinedCast)"
  by (simp add: WorldToPixel_def Let_def)

lemma WorldToPixel_fails_iff:
  "WorldToPixel wx wy bbox w h = ReturnsFalse \<longleftrightarrow> \<not> IsValid bbox \<or> w \<le> 0 \<or> h \<le> 0"
  by (auto simp: WorldToPixel_eval split: option.splits)

lemma WorldToPixel_casts:
  assumes "IsValid bbox" "0 < w" "0 < h"
  shows "WorldToPixel wx wy bbox w h =
     (if fits_int ((wx - m_dMinX bbox) / Width bbox * int_to_double w) \<and>
         fits_int ((1 - (wy - m_dMinY bbox) / Height bbox) * int_to_double h)
      then
        Pixel (max 0 (min (w - 1) (truncate_toward_zero
                 (valof ((wx - m_dMinX bbox) / Width bbox * int_to_double w)))))
              (max 0 (min (h - 1) (truncate_toward_zero
                 (valof ((1 - (wy - m_dMinY bbox) / Height bbox) * int_to_double h)))))
      else UndefinedCast)"
  using assms by (simp add: WorldToPixel_eval double_to_int_fits)

text \<open>
  Claim C1, as stated, asks for rounding to the nearest integer. On the box
  \<open>(0, 0, 4, 4)\<close> with a 4 by 4 image the world point \<open>(0.75, 0)\<close> has
  \<open>xPercent * width = 0.75\<close>, computed without a rounding error: the source returns the
  pixel \<open>(0, 3)\<close>, where rounding gives the column 1. And the claim promises a pixel for
  every world point: on the box \<open>(0, 0, 1, 1)\<close> with a 2 by 2 image the world point
  \<open>(3000000000, 0)\<close> scales to \<open>6000000000\<close>, which is no \<^verbatim>\<open>int\<close>, and the cast is undefined.
\<close>

theorem WorldToPixel_round_counterexample:
  "WorldToPixel (to_double (3 / 4)) 0
     \<lparr> m_dMinX = 0, m_dMinY = 0, m_dMaxX = to_double 4, m_dMaxY = to_double 4 \<rparr> 4 4 = Pixel 0 3 \<and>
   valof ((to_double (3 / 4) - 0) /
          Width \<lparr> m_dMinX = 0, m_dMinY = 0, m_dMaxX = to_double 4, m_dMaxY = to_double 4 \<rparr> *
          int_to_double 4) = 3 / 4 \<and>
   max 0 (min (4 - 1) (round (3 / 4 :: real))) = 1 \<and>
   WorldToPixel (to_double 3000000000) 0
     \<lparr> m_dMinX = 0, m_dMinY = 0, m_dMaxX = 1, m_dMaxY = 1 \<rparr> 2 2 = UndefinedCast \<and>
   valof ((to_double 3000000000 - 0) /
          Width \<lparr> m_dMinX = 0, m_dMinY = 0, m_dMaxX = 1, m_dMaxY = 1 \<rparr> *
          int_to_double 2) = 6000000000"
proof -
  let ?b = "\<lparr> m_dMinX = 0, m_dMinY = 0, m_dMaxX = to_double 4, m_dMaxY = to_double 4 \<rparr>"
  let ?u = "\<lparr> m_dMinX = 0 :: double, m_dMinY = 0, m_dMaxX = 1, m_dMaxY = 1 \<rparr>"
  have v: "IsValid ?b"
    by (simp add: IsValid_def double_eval)
  have x: "(to_double (3 / 4) - 0) / Width ?b * int_to_double 4 = to_double (3 / 4)"
    by (simp add: Width_def double_eval)
  have y: "(1 - (0 - 0) / Height ?b) * int_to_double 4 = to_double 4"
    by (simp add: Height_def double_eval)
  have c: "double_to_int (to_double (3 / 4)) = Some 0" "double_to_int (to_double 4) = Some 4"
    "valof (to_double (3 / 4)) = 3 / 4"
    by (simp_all add: double_eval)
  have r: "round (3 / 4 :: real) = 1"
    by (simp add: round_def)
  have a: "WorldToPixel (to_double (3 / 4)) 0 ?b 4 4 = Pixel 0 3"
    using v by (simp add: WorldToPixel_eval x y c)
  have far: "(to_double 3000000000 - 0) / Width ?u * int_to_double 2 = to_double 6000000000"
    by (simp add: Width_def double_eval)
  have big: "double_to_int (to_double 6000000000) = None"
    "valof (to_double 6000000000) = 6000000000"
    by (simp_all add: double_eval)
  have u: "WorldToPixel (to_double 3000000000) 0 ?u 2 2 = UndefinedCast"
    using unit_box_valid(1) by (simp add: WorldToPixel_eval far big)
  show ?thesis
    using a u by (simp add: x c r far big)
qed

text \<open>
  Claim C1, amended. \<^verbatim>\<open>WorldToPixel\<close> returns \<^verbatim>\<open>false\<close> exactly when the box is invalid or a
  dimension is not positive. Otherwise the two scaled coordinates \<open>xPercent * width\<close> and
  \<open>(1 - yPercent) * height\<close> are computed in \<^verbatim>\<open>double\<close> arithmetic, each operation rounded;
  when both are finite and within the range of \<^verbatim>\<open>int\<close> the result is their values with the
  fraction dropped (truncated towards zero, not rounded), each clamped to
  \<open>[0, dimension - 1]\<close>, and else the cast is undefined.
\<close>

theorem WorldToPixel_truncates:
  "(WorldToPixel wx wy bbox w h = ReturnsFalse \<longleftrightarrow> \<not> IsValid bbox \<or> w \<le> 0 \<or> h \<le> 0) \<and>
   (IsValid bbox \<and> 0 < w \<and> 0 < h \<and>
    fits_int ((wx - m_dMinX bbox) / Width bbox * int_to_double w) \<and>
    fits_int ((1 - (wy - m_dMinY bbox) / Height bbox) * int_to_double h) \<longrightarrow>
    WorldToPixel wx wy bbox w h =
      Pixel (max 0 (min (w - 1) (truncate_toward_zero
               (valof ((wx - m_dMinX bbox) / Width bbox * int_to_double w)))))
            (max 0 (min (h - 1) (truncate_toward_zero
               (valof ((1 - (wy - m_dMinY bbox) / Height bbox) * int_to_double h)))))) \<and>
   (IsValid bbox \<and> 0 < w \<and> 0 < h \<and>
    \<not> (fits_int ((wx - m_dMinX bbox) / Width bbox * int_to_double w) \<and>
       fits_int ((1 - (wy - m_dMinY bbox) / Height bbox) * int_to_double h)) \<longrightarrow>
    WorldToPixel wx wy bbox w h = UndefinedCast)"
  using WorldToPixel_fails_iff [of wx wy bbox w h] WorldToPixel_casts [of bbox w h wx wy]
  by simp

text \<open>
  On the box \<open>(-180, -90, 180, 90)\<close> and a 1024 by 768 image the point \<open>(-30, -15)\<close> is at
  the pixel \<open>(426, 447)\<close>: the quotient \<open>75 / 180\<close> is rounded, and the scaled row is a
  \<^verbatim>\<open>double\<close> below 448, the row in exact arithmetic.
\<close>

theorem WorldToPixel_truncates_witness:
  "WorldToPixel (to_double (- 30)) (to_double (- 15))
     \<lparr> m_dMinX = to_double (- 180), m_dMinY = to_double (- 90), m_dMaxX = to_double 180,
       m_dMaxY = to_double 90 \<rparr> 1024 768 = Pixel 426 447 \<and>
   truncate_toward_zero ((1 - (- 15 - (- 90)) / (90 - (- 90))) * 768 :: real) = 448 \<and>
   WorldToPixel 0 0 \<lparr> m_dMinX = 0, m_dMinY = 0, m_dMaxX = 0, m_dMaxY = to_double 4 \<rparr> 8 8 =
     ReturnsFalse \<and>
   WorldToPixel 0 0 \<lparr> m_dMinX = 0, m_dMinY = 0, m_dMaxX = to_double 4, m_dMaxY = to_double 4 \<rparr> 0 8 =
     ReturnsFalse"
proof -
  let ?world = "\<lparr> m_dMinX = to_double (- 180), m_dMinY = to_double (- 90),
      m_dMaxX = to_double 180, m_dMaxY = to_double 90 \<rparr>"
  have v: "IsValid ?world"
    by (simp add: IsValid_def double_eval)
  have x: "fits_int ((to_double (- 30) - m_dMinX ?world) / Width ?world * int_to_double 1024)"
    "truncate_toward_zero
       (valof ((to_double (- 30) - m_dMinX ?world) / Width ?world * int_to_double 1024)) = 426"
    by (simp_all add: Width_def double_eval)
  have y: "fits_int ((1 - (to_double (- 15) - m_dMinY ?world) / Height ?world) * int_to_double 768)"
    "truncate_toward_zero
       (valof ((1 - (to_double (- 15) - m_dMinY ?world) / Height ?world) * int_to_double 768)) = 447"
    by (simp_all add: Height_def double_eval)
  have a: "WorldToPixel (to_double (- 30)) (to_double (- 15)) ?world 1024 768 = Pixel 426 447"
    using WorldToPixel_truncates [of "to_double (- 30)" "to_double (- 15)" ?world 1024 768] v x y
    by simp
  have e: "truncate_toward_zero ((1 - (- 15 - (- 90)) / (90 - (- 90))) * 768 :: real) = 448"
    by (simp add: truncate_toward_zero_def)
  have n: "\<not> IsValid \<lparr> m_dMinX = 0 :: double, m_dMinY = 0, m_dMaxX = 0, m_dMaxY = to_double 4 \<rparr>"
    by (simp add: IsValid_def double_eval)
  have b: "WorldToPixel 0 0 \<lparr> m_dMinX = 0, m_dMinY = 0, m_dMaxX = 0, m_dMaxY = to_double 4 \<rparr> 8 8 =
      ReturnsFalse"
    using WorldToPixel_truncates [of 0 0
        "\<lparr> m_dMinX = 0, m_dMinY = 0, m_dMaxX = 0, m_dMaxY = to_double 4 \<rparr>" 8 8] n
    by simp
  have c: "WorldToPixel 0 0 \<lparr> m_dMinX = 0, m_dMinY = 0, m_dMaxX = to_double 4,
      m_dMaxY = to_double 4 \<rparr> 0 8 = ReturnsFalse"
    using WorldToPixel_truncates [of 0 0
        "\<lparr> m_dMinX = 0, m_dMinY = 0, m_dMaxX = to_double 4, m_dMaxY = to_double 4 \<rparr>" 0 8]
    by simp
  show ?thesis
    using a e b c by simp
qed

section \<open>Tile boxes and canvas corners\<close>








section \<open>The cache key\<close>

lemma append_layers_concat:
  "append_layers oss ls = oss @ concat (map (\<lambda>l. '',layer:'' @ l) ls)"
  by (induction ls arbitrary: oss) simp_all

lemma comma_split_unique:
  assumes eq: "a @ r1 = b @ r2"
    and a: "CHR '','' \<notin> set a" and b: "CHR '','' \<notin> set b"
    and r1: "r1 = [] \<or> hd r1 = CHR '',''" and r2: "r2 = [] \<or> hd r2 = CHR '',''"
  shows "a = b \<and> r1 = r2"
proof -
  have t: "takeWhile (\<lambda>c. c \<noteq> CHR '','') (x @ r) = x"
    if "CHR '','' \<notin> set x" "r = [] \<or> hd r = CHR '',''" for x r
  proof -
    have "takeWhile (\<lambda>c. c \<noteq> CHR '','') r = []"
      using that(2) by (cases r) auto
    moreover have "takeWhile (\<lambda>c. c \<noteq> CHR '','') (x @ r) =
        x @ takeWhile (\<lambda>c. c \<noteq> CHR '','') r"
      using that(1) by (intro takeWhile_append2) auto
    ultimately show ?thesis by simp
  qed
  have "a = takeWhile (\<lambda>c. c \<noteq> CHR '','') (a @ r1)" using t [OF a r1] by simp
  also have "\<dots> = takeWhile (\<lambda>c. c \<noteq> CHR '','') (b @ r2)" using eq by simp
  also have "\<dots> = b" using t [OF b r2] .
  finally have "a = b" .
  with eq show ?thesis by simp
qed

lemma layer_suffix_head:
  "concat (map (\<lambda>l. '',layer:'' @ l) ls) = [] \<or>
   hd (concat (map (\<lambda>l. '',layer:'' @ l) ls)) = CHR '',''"
  by (cases ls) simp_all

lemma layer_suffix_inj:
  assumes "\<forall>l \<in> set ls1. CHR '','' \<notin> set l" "\<forall>l \<in> set ls2. CHR '','' \<notin> set l"
    and "concat (map (\<lambda>l. '',layer:'' @ l) ls1) = concat (map (\<lambda>l. '',layer:'' @ l) ls2)"
  shows "ls1 = ls2"
  using assms
proof (induction ls1 arbitrary: ls2)
  case Nil
  then show ?case by (cases ls2) simp_all
next
  case (Cons a as)
  show ?case
  proof (cases ls2)
    case Nil
    with Cons.prems show ?thesis by simp
  next
    case (Cons b bs)
    let ?f = "\<lambda>l. '',layer:'' @ l"
    from Cons.prems(3) Cons have "a @ concat (map ?f as) = b @ concat (map ?f bs)" by simp
    moreover have "CHR '','' \<notin> set a" "CHR '','' \<notin> set b"
      using Cons.prems(1,2) Cons by simp_all
    ultimately have ab: "a = b \<and> concat (map ?f as) = concat (map ?f bs)"
      by (intro comma_split_unique layer_suffix_head)
    moreover have "as = bs"
      using Cons.IH [of bs] Cons.prems(1,2) Cons ab by simp
    ultimately show ?thesis using Cons by simp
  qed
qed

lemma of_char_digit_char: "d < 10 \<Longrightarrow> (of_char (digit_char d) :: nat) = 48 + d"
proof -
  assume "d < 10"
  then have "(48 + d) mod 256 = 48 + d" by (intro mod_less) linarith
  then show ?thesis unfolding digit_char_def of_char_of .
qed

lemma digit_char_inj:
  assumes "a < 10" "b < 10" "digit_char a = digit_char b"
  shows "a = b"
proof -
  have "(of_char (digit_char a) :: nat) = of_char (digit_char b)"
    using assms(3) by (rule arg_cong)
  then have "48 + a = 48 + b"
    unfolding of_char_digit_char [OF assms(1)] of_char_digit_char [OF assms(2)] .
  then show ?thesis by (rule add_left_imp_eq)
qed

lemma to_string_nat_length:
  "length (to_string_nat n) \<ge> 1 \<and> (n \<ge> 10 \<longrightarrow> length (to_string_nat n) \<ge> 2)"
proof (induction n rule: to_string_nat.induct)
  case (1 n)
  show ?case
  proof (cases "n < 10")
    case True
    then show ?thesis by (simp add: to_string_nat.simps)
  next
    case False
    with 1 have "length (to_string_nat (n div 10)) \<ge> 1" by simp
    with False show ?thesis by (subst (1 2) to_string_nat.simps) simp
  qed
qed

lemma to_string_nat_inj: "to_string_nat n = to_string_nat m \<Longrightarrow> n = m"
proof (induction n arbitrary: m rule: to_string_nat.induct)
  case (1 n)
  show ?case
  proof (cases "n < 10")
    case True
    have "m < 10"
    proof (rule ccontr)
      assume "\<not> m < 10"
      then have "length (to_string_nat m) \<ge> 2" using to_string_nat_length [of m] by simp
      moreover have "length (to_string_nat n) = 1" using True by (simp add: to_string_nat.simps)
      ultimately show False using "1.prems" by simp
    qed
    with True "1.prems" show ?thesis
      by (simp add: to_string_nat.simps digit_char_inj)
  next
    case False
    have m: "\<not> m < 10"
    proof
      assume "m < 10"
      then have "length (to_string_nat m) = 1" by (simp add: to_string_nat.simps)
      moreover have "length (to_string_nat n) \<ge> 2"
        using False to_string_nat_length [of n] by simp
      ultimately show False using "1.prems" by simp
    qed
    have "to_string_nat (n div 10) @ [digit_char (n mod 10)] =
          to_string_nat (m div 10) @ [digit_char (m mod 10)]"
      using "1.prems" False m by (subst (asm) (1 2) to_string_nat.simps) simp
    then have a: "to_string_nat (n div 10) = to_string_nat (m div 10)"
      and b: "digit_char (n mod 10) = digit_char (m mod 10)" by simp_all
    have "n div 10 = m div 10" using "1.IH" [OF False a] .
    moreover have "n mod 10 = m mod 10" using b by (intro digit_char_inj) simp_all
    ultimately show ?thesis by (metis div_mult_mod_eq)
  qed
qed

lemma cache_key_distinct_streams:
  assumes "mset layers2 = mset (m_vecLayers request)"
    and "layers2 \<noteq> m_vecLayers request"
    and "list_all comma_free (m_vecLayers request)"
  shows "CacheKeyString put_double (request \<lparr> m_vecLayers := layers2 \<rparr>) \<noteq>
           CacheKeyString put_double request"
proof -
  have "set layers2 = set (m_vecLayers request)"
    using assms(1) by (rule mset_eq_setD)
  then have "\<forall>l \<in> set layers2. CHR '','' \<notin> set l"
    "\<forall>l \<in> set (m_vecLayers request). CHR '','' \<notin> set l"
    using assms(3) by (simp_all add: list_all_iff comma_free_def)
  then have "concat (map (\<lambda>l. '',layer:'' @ l) layers2) \<noteq>
             concat (map (\<lambda>l. '',layer:'' @ l) (m_vecLayers request))"
    using layer_suffix_inj assms(2) by blast
  then show ?thesis
    by (simp add: CacheKeyString_def append_layers_concat)
qed

lemma cache_key_eq_iff_hash:
  "GenerateCacheKey put_double std_hash r1 = GenerateCacheKey put_double std_hash r2 \<longleftrightarrow>
   std_hash (CacheKeyString put_double r1) = std_hash (CacheKeyString put_double r2)"
  unfolding GenerateCacheKey_def
  by (auto dest!: to_string_nat_inj simp: word_eq_iff_unsigned [where ?'a = nat])

lemma fields_equal_identical:
  assumes "fields_equal r1 r2" "same_signs (m_bbox r1) (m_bbox r2)"
  shows "r1 = r2"
proof -
  have "m_dMinX (m_bbox r1) = m_dMinX (m_bbox r2)" "m_dMinY (m_bbox r1) = m_dMinY (m_bbox r2)"
    "m_dMaxX (m_bbox r1) = m_dMaxX (m_bbox r2)" "m_dMaxY (m_bbox r1) = m_dMaxY (m_bbox r2)"
    using assms by (simp_all add: fields_equal_def same_signs_def double_eq_identical)
  then have "m_bbox r1 = m_bbox r2" by simp
  then show ?thesis
    using assms(1) by (simp add: fields_equal_def)
qed

subsection \<open>More reorderings than hash values\<close>

lemma swapped_pairs_inj:
  "length bs = length cs \<Longrightarrow> swapped_pairs bs = swapped_pairs cs \<Longrightarrow> bs = cs"
proof (induction bs arbitrary: cs)
  case Nil
  then show ?case by simp
next
  case (Cons b bs)
  then obtain c cs' where c: "cs = c # cs'" by (cases cs) auto
  with Cons.prems have "b = c" "swapped_pairs bs = swapped_pairs cs'"
    by (auto simp: swapped_pairs_def split: if_splits)
  with Cons.IH [of cs'] Cons.prems(1) c show ?case by simp
qed

lemma swapped_pairs_mset:
  "mset (swapped_pairs bs) =
     replicate_mset (length bs) ''a'' + replicate_mset (length bs) ''b''"
  by (induction bs) (simp_all add: swapped_pairs_def)

lemma swapped_pairs_comma_free: "list_all comma_free (swapped_pairs bs)"
  by (induction bs) (simp_all add: swapped_pairs_def comma_free_def)

text \<open>
  There are \<open>2^66\<close> lists of 66 truth values and \<open>2^64\<close> values of \<^verbatim>\<open>size_t\<close>: every function
  from the former to the latter takes some value twice.
\<close>

lemma size_t_collision:
  fixes f :: "bool list \<Rightarrow> size_t"
  shows "\<exists>bs cs. length bs = 66 \<and> length cs = 66 \<and> bs \<noteq> cs \<and> f bs = f cs"
proof -
  let ?A = "{bs :: bool list. length bs = 66}"
  have "card {bs :: bool list. set bs \<subseteq> UNIV \<and> length bs = 66} = card (UNIV :: bool set) ^ 66"
    by (rule card_lists_length_eq) simp
  then have c: "card ?A = 2 ^ 66" by simp
  have "card (f ` ?A) \<le> card (UNIV :: size_t set)"
    by (rule card_mono) simp_all
  also have "\<dots> = 2 ^ 64" by (simp add: card_word)
  also have "\<dots> < card ?A" unfolding c by simp
  finally have "\<not> inj_on f ?A" by (rule pigeonhole)
  then show ?thesis by (auto simp: inj_on_def)
qed

lemma cache_key_collision:
  "\<exists>layers1 layers2. layers1 \<noteq> layers2 \<and> mset layers1 = mset layers2 \<and>
     list_all comma_free layers1 \<and> list_all comma_free layers2 \<and>
     GenerateCacheKey put_double std_hash (request \<lparr> m_vecLayers := layers1 \<rparr>) =
       GenerateCacheKey put_double std_hash (request \<lparr> m_vecLayers := layers2 \<rparr>)"
proof -
  obtain bs cs where l: "length bs = 66" "length cs = 66" and ne: "bs \<noteq> cs"
    and h: "std_hash (CacheKeyString put_double (request \<lparr> m_vecLayers := swapped_pairs bs \<rparr>)) =
            std_hash (CacheKeyString put_double (request \<lparr> m_vecLayers := swapped_pairs cs \<rparr>))"
    using size_t_collision [of "\<lambda>bs. std_hash
        (CacheKeyString put_double (request \<lparr> m_vecLayers := swapped_pairs bs \<rparr>))"]
    by blast
  have "swapped_pairs bs \<noteq> swapped_pairs cs"
    using swapped_pairs_inj [of bs cs] l ne by auto
  moreover have "mset (swapped_pairs bs) = mset (swapped_pairs cs)"
    using l by (simp add: swapped_pairs_mset)
  moreover have "GenerateCacheKey put_double std_hash (request \<lparr> m_vecLayers := swapped_pairs bs \<rparr>) =
      GenerateCacheKey put_double std_hash (request \<lparr> m_vecLayers := swapped_pairs cs \<rparr>)"
    using h by (simp add: GenerateCacheKey_def)
  ultimately show ?thesis
    using swapped_pairs_comma_free by blast
qed

subsection \<open>The stream output of some numbers\<close>

lemma put_double_positive_1: "put_double_positive 1 = ''1''"
  by code_simp

lemma put_double_g_0_1:
  "put_double_g 0 = ''0''" "put_double_g (- 0) = ''-0''" "put_double_g 1 = ''1''"
  by (simp_all add: put_double_g_def put_double_positive_1 double_eval)

lemma to_string_int_1: "to_string_int 1 = ''1''"
  by code_simp

text \<open>
  Claim C4, as stated, fails in three ways. A layer name may contain the separator: the
  layer lists \<open>[a, (a,layer:a)]\<close> and \<open>[(a,layer:a), a]\<close> differ only in order and give the
  same contents of the stream, hence the same key, whatever the hash and the number format
  are. The boxes with \<open>minX = -0.0\<close> and \<open>minX = 0.0\<close> are equal field for field, and the
  stream prints \<^verbatim>\<open>-0\<close> for the one and \<^verbatim>\<open>0\<close> for the other: the keys differ. And whatever
  \<^verbatim>\<open>std::hash\<close> is, some two reorderings of one list of layer names without a comma have
  the same key, since there are more reorderings than values of \<^verbatim>\<open>size_t\<close>.
\<close>

theorem cache_key_layer_order_counterexample:
  "(\<forall>put_double std_hash.
      GenerateCacheKey put_double std_hash
        \<lparr> m_bbox = \<lparr> m_dMinX = 0, m_dMinY = 0, m_dMaxX = 1, m_dMaxY = 1 \<rparr>, m_nWidth = 1,
          m_nHeight = 1, m_vecLayers = [''a'', ''a,layer:a''], m_mapStyles = Map.empty,
          m_strBackgroundColor = ''#ffffff'', m_strFilter = [] \<rparr> =
      GenerateCacheKey put_double std_hash
        \<lparr> m_bbox = \<lparr> m_dMinX = 0, m_dMinY = 0, m_dMaxX = 1, m_dMaxY = 1 \<rparr>, m_nWidth = 1,
          m_nHeight = 1, m_vecLayers = [''a,layer:a'', ''a''], m_mapStyles = Map.empty,
          m_strBackgroundColor = ''#ffffff'', m_strFilter = [] \<rparr>) \<and>
   [''a'', ''a,layer:a''] \<noteq> [''a,layer:a'', ''a''] \<and>
   mset [''a'', ''a,layer:a''] = mset [''a,layer:a'', ''a''] \<and>
   CacheKeyString put_double_g
     \<lparr> m_bbox = \<lparr> m_dMinX = 0, m_dMinY = 0, m_dMaxX = 1, m_dMaxY = 1 \<rparr>, m_nWidth = 1,
       m_nHeight = 1, m_vecLayers = [''a'', ''a,layer:a''], m_mapStyles = Map.empty,
       m_strBackgroundColor = ''#ffffff'', m_strFilter = [] \<rparr> =
     ''0,0,1,1,1x1,bg:#ffffff,layer:a,layer:a,layer:a'' \<and>
   fields_equal
     \<lparr> m_bbox = \<lparr> m_dMinX = - 0, m_dMinY = 0, m_dMaxX = 1, m_dMaxY = 1 \<rparr>, m_nWidth = 1,
       m_nHeight = 1, m_vecLayers = [], m_mapStyles = Map.empty,
       m_strBackgroundColor = ''#ffffff'', m_strFilter = [] \<rparr>
     \<lparr> m_bbox = \<lparr> m_dMinX = 0, m_dMinY = 0, m_dMaxX = 1, m_dMaxY = 1 \<rparr>, m_nWidth = 1,
       m_nHeight = 1, m_vecLayers = [], m_mapStyles = Map.empty,
       m_strBackgroundColor = ''#ffffff'', m_strFilter = [] \<rparr> \<and>
   CacheKeyString put_double_g
     \<lparr> m_bbox = \<lparr> m_dMinX = - 0, m_dMinY = 0, m_dMaxX = 1, m_dMaxY = 1 \<rparr>, m_nWidth = 1,
       m_nHeight = 1, m_vecLayers = [], m_mapStyles = Map.empty,
       m_strBackgroundColor = ''#ffffff'', m_strFilter = [] \<rparr> = ''-0,0,1,1,1x1,bg:#ffffff'' \<and>
   CacheKeyString put_double_g
     \<lparr> m_bbox = \<lparr> m_dMinX = 0, m_dMinY = 0, m_dMaxX = 1, m_dMaxY = 1 \<rparr>, m_nWidth = 1,
       m_nHeight = 1, m_vecLayers = [], m_mapStyles = Map.empty,
       m_strBackgroundColor = ''#ffffff'', m_strFilter = [] \<rparr> = ''0,0,1,1,1x1,bg:#ffffff'' \<and>
   GenerateCacheKey put_double_g fnv1a_64
     \<lparr> m_bbox = \<lparr> m_dMinX = - 0, m_dMinY = 0, m_dMaxX = 1, m_dMaxY = 1 \<rparr>, m_nWidth = 1,
       m_nHeight = 1, m_vecLayers = [], m_mapStyles = Map.empty,
       m_strBackgroundColor = ''#ffffff'', m_strFilter = [] \<rparr> \<noteq>
   GenerateCacheKey put_double_g fnv1a_64
     \<lparr> m_bbox = \<lparr> m_dMinX = 0, m_dMinY = 0, m_dMaxX = 1, m_dMaxY = 1 \<rparr>, m_nWidth = 1,
       m_nHeight = 1, m_vecLayers = [], m_mapStyles = Map.empty,
       m_strBackgroundColor = ''#ffffff'', m_strFilter = [] \<rparr> \<and>
   (\<forall>put_double std_hash request. \<exists>layers1 layers2.
      layers1 \<noteq> layers2 \<and> mset layers1 = mset layers2 \<and>
      list_all comma_free layers1 \<and> list_all comma_free layers2 \<and>
      GenerateCacheKey put_double std_hash (request \<lparr> m_vecLayers := layers1 \<rparr>) =
        GenerateCacheKey put_double std_hash (request \<lparr> m_vecLayers := layers2 \<rparr>))"
proof -
  let ?unit = "\<lparr> m_dMinX = 0 :: double, m_dMinY = 0, m_dMaxX = 1, m_dMaxY = 1 \<rparr>"
  let ?neg = "\<lparr> m_bbox = ?unit \<lparr> m_dMinX := - 0 \<rparr>, m_nWidth = 1,
      m_nHeight = 1, m_vecLayers = [], m_mapStyles = Map.empty,
      m_strBackgroundColor = ''#ffffff'', m_strFilter = [] \<rparr>"
  let ?pos = "\<lparr> m_bbox = ?unit, m_nWidth = 1,
      m_nHeight = 1, m_vecLayers = [], m_mapStyles = Map.empty,
      m_strBackgroundColor = ''#ffffff'', m_strFilter = [] \<rparr>"
  have comma: "GenerateCacheKey put_double std_hash (?pos \<lparr> m_vecLayers := [''a'', ''a,layer:a''] \<rparr>) =
      GenerateCacheKey put_double std_hash (?pos \<lparr> m_vecLayers := [''a,layer:a'', ''a''] \<rparr>)"
    for put_double std_hash
    by (simp add: GenerateCacheKey_def CacheKeyString_def)
  have stream: "CacheKeyString put_double_g (?pos \<lparr> m_vecLayers := [''a'', ''a,layer:a''] \<rparr>) =
      ''0,0,1,1,1x1,bg:#ffffff,layer:a,layer:a,layer:a''"
    by (simp add: CacheKeyString_def put_double_g_0_1 to_string_int_1)
  have eq: "fields_equal ?neg ?pos"
    by (simp add: fields_equal_def double_eval)
  have sn: "CacheKeyString put_double_g ?neg = ''-0,0,1,1,1x1,bg:#ffffff''"
    and sp: "CacheKeyString put_double_g ?pos = ''0,0,1,1,1x1,bg:#ffffff''"
    by (simp_all add: CacheKeyString_def put_double_g_0_1 to_string_int_1)
  have "fnv1a_64 ''-0,0,1,1,1x1,bg:#ffffff'' \<noteq> fnv1a_64 ''0,0,1,1,1x1,bg:#ffffff''"
    by code_simp
  then have keys: "GenerateCacheKey put_double_g fnv1a_64 ?neg \<noteq>
      GenerateCacheKey put_double_g fnv1a_64 ?pos"
    unfolding cache_key_eq_iff_hash sn sp .
  show ?thesis
    using comma stream eq sn sp keys cache_key_collision by simp
qed

lemma put_double_g_tenth:
  "put_double_g (to_double (1 / 10)) = ''0.1''"
  "put_double_g (to_double (1000001 / 10000000)) = ''0.1''"
  "to_double (1 / 10) \<noteq> to_double (1000001 / 10000000)"
proof -
  have d: "to_double (1 / 10) = Double False 4591870180066957722"
    "to_double (1000001 / 10000000) = Double False 4591870187272717125"
    by (simp_all add: double_eval)
  have p: "put_double_positive (3602879701896397 / 36028797018963968) = ''0.1''"
    "put_double_positive (7205766609552197 / 72057594037927936) = ''0.1''"
    by code_simp+
  show "put_double_g (to_double (1 / 10)) = ''0.1''"
    "put_double_g (to_double (1000001 / 10000000)) = ''0.1''"
    unfolding d by (simp_all add: put_double_g_def double_eval p)
  show "to_double (1 / 10) \<noteq> to_double (1000001 / 10000000)"
    unfolding d by simp
qed

text \<open>
  Claim C4, amended. Two requests that are equal field for field, the signs of their
  coordinates included (so that a zero is not compared with the zero of the other sign),
  have the same key; so have, more generally, two requests whose coordinates print alike
  and whose size, background colour and layer list are equal, the only fields that the
  key reads. Two requests that differ only in the order of their layer names, none of which
  contains a comma, put different contents on the stream; their keys, the decimal digits of
  \<^verbatim>\<open>std::hash\<close> of these contents, differ exactly when the two hash values differ.
\<close>

theorem cache_key_layer_order:
  "(fields_equal request2 request \<and> same_signs (m_bbox request2) (m_bbox request) \<longrightarrow>
      GenerateCacheKey put_double std_hash request2 = GenerateCacheKey put_double std_hash request) \<and>
   (put_double (m_dMinX (m_bbox request2)) = put_double (m_dMinX (m_bbox request)) \<and>
    put_double (m_dMinY (m_bbox request2)) = put_double (m_dMinY (m_bbox request)) \<and>
    put_double (m_dMaxX (m_bbox request2)) = put_double (m_dMaxX (m_bbox request)) \<and>
    put_double (m_dMaxY (m_bbox request2)) = put_double (m_dMaxY (m_bbox request)) \<and>
    m_nWidth request2 = m_nWidth request \<and> m_nHeight request2 = m_nHeight request \<and>
    m_strBackgroundColor request2 = m_strBackgroundColor request \<and>
    m_vecLayers request2 = m_vecLayers request \<longrightarrow>
      GenerateCacheKey put_double std_hash request2 = GenerateCacheKey put_double std_hash request) \<and>
   (mset layers2 = mset (m_vecLayers request) \<and> layers2 \<noteq> m_vecLayers request \<and>
    list_all comma_free (m_vecLayers request) \<longrightarrow>
      CacheKeyString put_double (request \<lparr> m_vecLayers := layers2 \<rparr>) \<noteq>
        CacheKeyString put_double request \<and>
      (GenerateCacheKey put_double std_hash (request \<lparr> m_vecLayers := layers2 \<rparr>) \<noteq>
         GenerateCacheKey put_double std_hash request \<longleftrightarrow>
       std_hash (CacheKeyString put_double (request \<lparr> m_vecLayers := layers2 \<rparr>)) \<noteq>
         std_hash (CacheKeyString put_double request)))"
proof -
  have same: "GenerateCacheKey put_double std_hash request2 =
      GenerateCacheKey put_double std_hash request"
    if "put_double (m_dMinX (m_bbox request2)) = put_double (m_dMinX (m_bbox request))"
      "put_double (m_dMinY (m_bbox request2)) = put_double (m_dMinY (m_bbox request))"
      "put_double (m_dMaxX (m_bbox request2)) = put_double (m_dMaxX (m_bbox request))"
      "put_double (m_dMaxY (m_bbox request2)) = put_double (m_dMaxY (m_bbox request))"
      "m_nWidth request2 = m_nWidth request" "m_nHeight request2 = m_nHeight request"
      "m_strBackgroundColor request2 = m_strBackgroundColor request"
      "m_vecLayers request2 = m_vecLayers request"
    using that by (simp add: GenerateCacheKey_def CacheKeyString_def)
  show ?thesis
    using cache_key_distinct_streams [of layers2 request put_double]
      cache_key_eq_iff_hash [of put_double std_hash "request \<lparr> m_vecLayers := layers2 \<rparr>" request]
      fields_equal_identical [of request2 request] same
    by blast
qed

text \<open>
  Two ways of writing one request have one key; the boxes that start at \<open>0.1\<close> and at
  \<open>0.1000001\<close> print alike and share their key; and the layers \<^verbatim>\<open>roads\<close>, \<^verbatim>\<open>rivers\<close> in
  their two orders put different contents on the stream.
\<close>

theorem cache_key_layer_order_witness:
  "GenerateCacheKey put_double_g fnv1a_64
     \<lparr> m_bbox = \<lparr> m_dMinX = to_double 0, m_dMinY = to_double 0, m_dMaxX = to_double 1,
                  m_dMaxY = to_double 1 \<rparr>, m_nWidth = 1,
       m_nHeight = 1, m_vecLayers = [''rivers'', ''roads''], m_mapStyles = Map.empty,
       m_strBackgroundColor = ''#ffffff'', m_strFilter = [] \<rparr> =
   GenerateCacheKey put_double_g fnv1a_64
     \<lparr> m_bbox = \<lparr> m_dMinX = 0, m_dMinY = 0, m_dMaxX = 1, m_dMaxY = 1 \<rparr>, m_nWidth = 1,
       m_nHeight = 1, m_vecLayers = [''rivers'', ''roads''], m_mapStyles = Map.empty,
       m_strBackgroundColor = ''#ffffff'', m_strFilter = [] \<rparr> \<and>
   to_double (1 / 10) \<noteq> to_double (1000001 / 10000000) \<and>
   GenerateCacheKey put_double_g fnv1a_64
     \<lparr> m_bbox = \<lparr> m_dMinX = to_double (1 / 10), m_dMinY = 0, m_dMaxX = 1, m_dMaxY = 1 \<rparr>,
       m_nWidth = 1, m_nHeight = 1, m_vecLayers = [''rivers'', ''roads''],
       m_mapStyles = Map.empty, m_strBackgroundColor = ''#ffffff'', m_strFilter = [] \<rparr> =
   GenerateCacheKey put_double_g fnv1a_64
     \<lparr> m_bbox = \<lparr> m_dMinX = to_double (1000001 / 10000000), m_dMinY = 0, m_dMaxX = 1,
                  m_dMaxY = 1 \<rparr>,
       m_nWidth = 1, m_nHeight = 1, m_vecLayers = [''rivers'', ''roads''],
       m_mapStyles = Map.empty, m_strBackgroundColor = ''#ffffff'', m_strFilter = [] \<rparr> \<and>
   CacheKeyString put_double_g
     \<lparr> m_bbox = \<lparr> m_dMinX = 0, m_dMinY = 0, m_dMaxX = 1, m_dMaxY = 1 \<rparr>, m_nWidth = 1,
       m_nHeight = 1, m_vecLayers = [''roads'', ''rivers''], m_mapStyles = Map.empty,
       m_strBackgroundColor = ''#ffffff'', m_strFilter = [] \<rparr> \<noteq>
   CacheKeyString put_double_g
     \<lparr> m_bbox = \<lparr> m_dMinX = 0, m_dMinY = 0, m_dMaxX = 1, m_dMaxY = 1 \<rparr>, m_nWidth = 1,
       m_nHeight = 1, m_vecLayers = [''rivers'', ''roads''], m_mapStyles = Map.empty,
       m_strBackgroundColor = ''#ffffff'', m_strFilter = [] \<rparr>"
proof -
  let ?unit = "\<lparr> m_dMinX = 0 :: double, m_dMinY = 0, m_dMaxX = 1, m_dMaxY = 1 \<rparr>"
  let ?lit = "\<lparr> m_dMinX = to_double 0, m_dMinY = to_double 0, m_dMaxX = to_double 1,
      m_dMaxY = to_double 1 \<rparr>"
  let ?r = "\<lparr> m_bbox = ?unit, m_nWidth = 1,
      m_nHeight = 1, m_vecLayers = [''rivers'', ''roads''], m_mapStyles = Map.empty,
      m_strBackgroundColor = ''#ffffff'', m_strFilter = [] \<rparr>"
  let ?r1 = "?r \<lparr> m_bbox := ?unit \<lparr> m_dMinX := to_double (1 / 10) \<rparr> \<rparr>"
  let ?r2 = "?r \<lparr> m_bbox := ?unit \<lparr> m_dMinX := to_double (1000001 / 10000000) \<rparr> \<rparr>"
  have eq: "fields_equal (?r \<lparr> m_bbox := ?lit \<rparr>) ?r" "same_signs ?lit ?unit"
    by (simp_all add: fields_equal_def same_signs_def double_eval)
  have a: "GenerateCacheKey put_double_g fnv1a_64 (?r \<lparr> m_bbox := ?lit \<rparr>) =
      GenerateCacheKey put_double_g fnv1a_64 ?r"
    using cache_key_layer_order [of "?r \<lparr> m_bbox := ?lit \<rparr>" ?r put_double_g fnv1a_64] eq
    by simp
  have b: "GenerateCacheKey put_double_g fnv1a_64 ?r1 = GenerateCacheKey put_double_g fnv1a_64 ?r2"
    using cache_key_layer_order [of ?r1 ?r2 put_double_g fnv1a_64] put_double_g_tenth(1,2)
    by simp
  have c: "CacheKeyString put_double_g (?r \<lparr> m_vecLayers := [''roads'', ''rivers''] \<rparr>) \<noteq>
      CacheKeyString put_double_g ?r"
    using cache_key_layer_order [of ?r ?r put_double_g fnv1a_64 "[''roads'', ''rivers'']"]
    by (simp add: comma_free_def)
  show ?thesis
    using a b c put_double_g_tenth(3) by simp
qed

section \<open>Request validation\<close>

lemma to_string_int_4096: "to_string_int 4096 = ''4096''"
  by code_simp

lemma bbox_in_world_passes:
  assumes "spec_bbox_in_world b"
  shows "IsValid b"
    and "\<not> (m_dMinX b < to_double (- 180) \<or> m_dMaxX b > to_double 180)"
    and "\<not> (m_dMinY b < to_double (- 90) \<or> m_dMaxY b > to_double 90)"
  using assms by (auto simp: spec_bbox_in_world_def IsValid_def dest: double_le_not_less)

lemma world_box:
  "spec_bbox_in_world
     \<lparr> m_dMinX = to_double (- 180), m_dMinY = to_double (- 90), m_dMaxX = to_double 180,
       m_dMaxY = to_double 90 \<rparr>"
  by (simp add: spec_bbox_in_world_def double_eval)

lemma west_of_world:
  "IsValid \<lparr> m_dMinX = to_double (- 181), m_dMinY = to_double (- 90), m_dMaxX = 0,
     m_dMaxY = to_double 90 \<rparr>"
  "to_double (- 181) < to_double (- 180)"
  by (simp_all add: IsValid_def double_eval)

lemma validate_accepts_4096:
  assumes "spec_bbox_in_world (m_bbox r)" "m_nWidth r = 4096" "m_nHeight r = 4096"
    "m_strBackgroundColor r = ''#123456''" "validate_layers (m_vecLayers r) = Inr ()"
  shows "ValidateMapRequestParameters GetDefaultConfig r = Inr ()"
  using assms(2-5) bbox_in_world_passes [OF assms(1)]
  by (simp add: ValidateMapRequestParameters_def GetDefaultConfig_def isxdigit_def Let_def)

lemma validate_rejects_4097:
  assumes "spec_bbox_in_world (m_bbox r)" "m_nWidth r = 4097" "0 < m_nHeight r"
  shows "ValidateMapRequestParameters GetDefaultConfig r =
     Inl ''Image width exceeds maximum allowed value of 4096''"
  using assms(2-3) bbox_in_world_passes [OF assms(1)]
  by (simp add: ValidateMapRequestParameters_def GetDefaultConfig_def Let_def to_string_int_4096)

lemma validate_rejects_longitude:
  assumes "m_bbox r = \<lparr> m_dMinX = to_double (- 181), m_dMinY = to_double (- 90), m_dMaxX = 0,
      m_dMaxY = to_double 90 \<rparr>"
  shows "ValidateMapRequestParameters config r =
     Inl ''Longitude values must be between -180 and 180 degrees''"
  using assms west_of_world
  by (simp add: ValidateMapRequestParameters_def Let_def)

lemma validate_rejects_5_hex:
  assumes "spec_bbox_in_world (m_bbox r)" "0 < m_nWidth r" "m_nWidth r \<le> 4096"
    "0 < m_nHeight r" "m_nHeight r \<le> 4096" "m_strBackgroundColor r = ''#12345''"
  shows "ValidateMapRequestParameters GetDefaultConfig r =
     Inl ''Background color must be in format #RRGGBB or #RGB''"
  using assms(2-6) bbox_in_world_passes [OF assms(1)]
  by (simp add: ValidateMapRequestParameters_def GetDefaultConfig_def Let_def)

lemma rejected_before_render:
  assumes "ValidateMapRequestParameters config r = Inl msg"
  shows "HandleGenerateRequest png config eng r =
     Inr ((GenerateErrorResponse ''INVALID_REQUEST'' msg, ''application/json''), eng)"
  using assms by (simp add: HandleGenerateRequest_def)

text \<open>
  Claim C3. Under the default configuration (4096 by 4096) a request of 4096 by 4096 with
  the background \<^verbatim>\<open>#123456\<close> is accepted; the width 4097 is rejected with the width
  message, the box \<open>(-181, -90, 0, 90)\<close> with the longitude message and the background
  \<^verbatim>\<open>#12345\<close> with the format message. Each message is the one of the first rule violated,
  whatever the later fields are, and a rejected request is answered by
  \<^verbatim>\<open>HandleGenerateRequest\<close> with that message alone, the engine untouched: \<^verbatim>\<open>RenderMap\<close> (and
  with it the allocation of the canvas) is not reached.
\<close>

theorem validation_boundaries:
  "(spec_bbox_in_world (m_bbox r) \<and> m_nWidth r = 4096 \<and> m_nHeight r = 4096 \<and>
    m_strBackgroundColor r = ''#123456'' \<and> validate_layers (m_vecLayers r) = Inr () \<longrightarrow>
      ValidateMapRequestParameters GetDefaultConfig r = Inr ()) \<and>
   (spec_bbox_in_world (m_bbox r) \<and> m_nWidth r = 4097 \<and> 0 < m_nHeight r \<longrightarrow>
      ValidateMapRequestParameters GetDefaultConfig r =
        Inl ''Image width exceeds maximum allowed value of 4096'') \<and>
   (m_bbox r = \<lparr> m_dMinX = to_double (- 181), m_dMinY = to_double (- 90), m_dMaxX = 0,
                 m_dMaxY = to_double 90 \<rparr> \<longrightarrow>
      ValidateMapRequestParameters config r =
        Inl ''Longitude values must be between -180 and 180 degrees'') \<and>
   (spec_bbox_in_world (m_bbox r) \<and> 0 < m_nWidth r \<and> m_nWidth r \<le> 4096 \<and>
    0 < m_nHeight r \<and> m_nHeight r \<le> 4096 \<and> m_strBackgroundColor r = ''#12345'' \<longrightarrow>
      ValidateMapRequestParameters GetDefaultConfig r =
        Inl ''Background color must be in format #RRGGBB or #RGB'') \<and>
   (ValidateMapRequestParameters config r = Inl msg \<longrightarrow>
      HandleGenerateRequest png config eng r =
        Inr ((GenerateErrorResponse ''INVALID_REQUEST'' msg, ''application/json''), eng))"
  using validate_accepts_4096 [of r] validate_rejects_4097 [of r]
    validate_rejects_longitude [of r config] validate_rejects_5_hex [of r]
    rejected_before_render [of config r msg png eng]
  by blast

theorem validation_boundaries_witness:
  "ValidateMapRequestParameters GetDefaultConfig
     \<lparr> m_bbox = \<lparr> m_dMinX = to_double (- 180), m_dMinY = to_double (- 90),
                  m_dMaxX = to_double 180, m_dMaxY = to_double 90 \<rparr>,
       m_nWidth = 4096, m_nHeight = 4096, m_vecLayers = [''roads''], m_mapStyles = Map.empty,
       m_strBackgroundColor = ''#123456'', m_strFilter = [] \<rparr> = Inr () \<and>
   ValidateMapRequestParameters GetDefaultConfig
     \<lparr> m_bbox = \<lparr> m_dMinX = to_double (- 180), m_dMinY = to_double (- 90),
                  m_dMaxX = to_double 180, m_dMaxY = to_double 90 \<rparr>,
       m_nWidth = 4097, m_nHeight = 4096, m_vecLayers = [''no good''], m_mapStyles = Map.empty,
       m_strBackgroundColor = ''#12345'', m_strFilter = [] \<rparr> =
     Inl ''Image width exceeds maximum allowed value of 4096'' \<and>
   ValidateMapRequestParameters GetDefaultConfig
     \<lparr> m_bbox = \<lparr> m_dMinX = to_double (- 181), m_dMinY = to_double (- 90), m_dMaxX = 0,
                  m_dMaxY = to_double 90 \<rparr>,
       m_nWidth = 4097, m_nHeight = 4096, m_vecLayers = [''no good''], m_mapStyles = Map.empty,
       m_strBackgroundColor = ''#12345'', m_strFilter = [] \<rparr> =
     Inl ''Longitude values must be between -180 and 180 degrees'' \<and>
   ValidateMapRequestParameters GetDefaultConfig
     \<lparr> m_bbox = \<lparr> m_dMinX = to_double (- 180), m_dMinY = to_double (- 90),
                  m_dMaxX = to_double 180, m_dMaxY = to_double 90 \<rparr>,
       m_nWidth = 4096, m_nHeight = 4096, m_vecLayers = [''no good''], m_mapStyles = Map.empty,
       m_strBackgroundColor = ''#12345'', m_strFilter = [] \<rparr> =
     Inl ''Background color must be in format #RRGGBB or #RGB'' \<and>
   HandleGenerateRequest \<lparr> EncodeToMemory = (\<lambda>img w h. Some img), fresh_encoder_error = [] \<rparr>
     GetDefaultConfig
     \<lparr> m_config = GetDefaultConfig, m_strError = [], m_bInitialized = True \<rparr>
     \<lparr> m_bbox = \<lparr> m_dMinX = to_double (- 180), m_dMinY = to_double (- 90),
                  m_dMaxX = to_double 180, m_dMaxY = to_double 90 \<rparr>,
       m_nWidth = 4096, m_nHeight = 4096, m_vecLayers = [''no good''], m_mapStyles = Map.empty,
       m_strBackgroundColor = ''#12345'', m_strFilter = [] \<rparr> =
     Inr ((GenerateErrorResponse ''INVALID_REQUEST''
             ''Background color must be in format #RRGGBB or #RGB'', ''application/json''),
          \<lparr> m_config = GetDefaultConfig, m_strError = [], m_bInitialized = True \<rparr>)"
proof -
  let ?world = "\<lparr> m_dMinX = to_double (- 180), m_dMinY = to_double (- 90),
      m_dMaxX = to_double 180, m_dMaxY = to_double 90 \<rparr>"
  let ?west = "\<lparr> m_dMinX = to_double (- 181), m_dMinY = to_double (- 90), m_dMaxX = 0,
      m_dMaxY = to_double 90 \<rparr>"
  let ?png = "\<lparr> EncodeToMemory = (\<lambda>img w h. Some img), fresh_encoder_error = [] \<rparr>"
  let ?eng = "\<lparr> m_config = GetDefaultConfig, m_strError = [], m_bInitialized = True \<rparr>"
  let ?bad = "\<lparr> m_bbox = ?world, m_nWidth = 4096, m_nHeight = 4096,
      m_vecLayers = [''no good''], m_mapStyles = Map.empty,
      m_strBackgroundColor = ''#12345'', m_strFilter = [] \<rparr>"
  have a: "ValidateMapRequestParameters GetDefaultConfig
      \<lparr> m_bbox = ?world, m_nWidth = 4096, m_nHeight = 4096, m_vecLayers = [''roads''],
        m_mapStyles = Map.empty, m_strBackgroundColor = ''#123456'', m_strFilter = [] \<rparr> = Inr ()"
    using validation_boundaries [of
        "\<lparr> m_bbox = ?world, m_nWidth = 4096, m_nHeight = 4096, m_vecLayers = [''roads''],
           m_mapStyles = Map.empty, m_strBackgroundColor = ''#123456'', m_strFilter = [] \<rparr>"]
      world_box
    by (simp add: is_layer_char_def)
  have b: "ValidateMapRequestParameters GetDefaultConfig (?bad \<lparr> m_nWidth := 4097 \<rparr>) =
      Inl ''Image width exceeds maximum allowed value of 4096''"
    using validation_boundaries [of "?bad \<lparr> m_nWidth := 4097 \<rparr>"] world_box
    by simp
  have c: "ValidateMapRequestParameters GetDefaultConfig
      (?bad \<lparr> m_bbox := ?west, m_nWidth := 4097 \<rparr>) =
      Inl ''Longitude values must be between -180 and 180 degrees''"
    using validation_boundaries [of "?bad \<lparr> m_bbox := ?west, m_nWidth := 4097 \<rparr>" GetDefaultConfig]
    by simp
  have d: "ValidateMapRequestParameters GetDefaultConfig ?bad =
      Inl ''Background color must be in format #RRGGBB or #RGB''"
    using validation_boundaries [of ?bad] world_box by simp
  have e: "HandleGenerateRequest ?png GetDefaultConfig ?eng ?bad =
      Inr ((GenerateErrorResponse ''INVALID_REQUEST''
              ''Background color must be in format #RRGGBB or #RGB'', ''application/json''),
           ?eng)"
    using validation_boundaries [of ?bad GetDefaultConfig
        "''Background color must be in format #RRGGBB or #RGB''" ?png ?eng] d
    by blast
  show ?thesis
    using a b c d e by simp
qed

section \<open>The canvas: stores, loops and colours\<close>

lemma bind_sum_Inr [simp]: "bind_sum (Inr x) f = f x"
  by (simp add: bind_sum_def)

lemma bind_sum_Inl [simp]: "bind_sum (Inl e) f = Inl e"
  by (simp add: bind_sum_def)

lemma vec_set_in_range: "i < length vec \<Longrightarrow> vec_set vec i v = Inr (vec[i := v])"
  by (simp add: vec_set_def)

lemma store_rgba_in_range:
  assumes "index + 3 < length vec"
  shows "store_rgba vec index r g b a =
     Inr (vec[index := r, index + 1 := g, index + 2 := b, index + 3 := a])"
  using assms by (simp add: store_rgba_def vec_set_in_range)

text \<open>An invariant of the state that no iteration breaks holds after the loop, which ends.\<close>

lemma for_range_invariant:
  assumes step: "\<And>i s. P s \<Longrightarrow> \<exists>s'. body i s = Inr s' \<and> P s'"
    and init: "P s"
  shows "\<exists>s'. for_range lo hi body s = Inr s' \<and> P s'"
  using init
proof (induction "nat (hi + 1 - lo)" arbitrary: lo s)
  case 0
  then have "\<not> lo \<le> hi" by simp
  with "0.prems" show ?case
    by (subst for_range.simps) simp
next
  case (Suc n)
  then have le: "lo \<le> hi" by simp
  from step [OF Suc.prems, of lo] obtain s1 where s1: "body lo s = Inr s1" "P s1"
    by blast
  have "n = nat (hi + 1 - (lo + 1))" using Suc.hyps(2) by simp
  from Suc.hyps(1) [OF this s1(2)] obtain s2 where
    "for_range (lo + 1) hi body s1 = Inr s2" "P s2" by blast
  with le s1 show ?case
    by (subst for_range.simps) simp
qed

lemma index_plus_3:
  fixes k :: size_t
  shows "unat (k * 4 + 3) = unat (k * 4) + 3"
proof -
  have e: "unat (k * 4) = (unat k * 4) mod 2 ^ 64"
    by (simp add: unat_word_ariths)
  have "(4::nat) dvd 2 ^ 64" by (simp add: dvd_def)
  then have "4 dvd unat (k * 4)" unfolding e by (simp add: dvd_mod)
  then obtain q where q: "unat (k * 4) = 4 * q" by (auto simp: dvd_def)
  have "unat (k * 4) < 2 ^ 64" using unsigned_less [of "k * 4"] by simp
  then have "4 * q < 4 * 2 ^ 62" using q by simp
  then have "q < 2 ^ 62" by simp
  then have "4 * q + 3 < 2 ^ 64" by simp
  then have "unat (k * 4) + 3 < 2 ^ 64" using q by simp
  then show ?thesis
    by (simp add: unat_word_ariths)
qed

lemma less_size_t_length:
  fixes a :: size_t
  shows "a < of_nat n \<Longrightarrow> unat a < n"
  by (metis le_unat_uoi linorder_not_le word_less_nat_alt)

lemma put_pixel_keeps_length:
  "\<exists>vec'. put_pixel nWidth r g b a y x vec = Inr vec' \<and> length vec' = length vec"
proof -
  define k :: size_t where "k = word_of_int y * word_of_int nWidth + word_of_int x"
  show ?thesis
  proof (cases "k * 4 + 3 < of_nat (length vec)")
    case True
    then have "unat (k * 4 + 3) < length vec" by (rule less_size_t_length)
    then have "unat (k * 4) + 3 < length vec" by (simp add: index_plus_3)
    then show ?thesis
      using True by (simp add: put_pixel_def k_def [symmetric] store_rgba_in_range Let_def)
  next
    case False
    then show ?thesis by (simp add: put_pixel_def k_def [symmetric] Let_def)
  qed
qed

lemma draw_row_keeps_length:
  "\<exists>vec'. draw_row nWidth r g b a startX endX y vec = Inr vec' \<and> length vec' = length vec"
  unfolding draw_row_def
  by (rule for_range_invariant [where P = "\<lambda>v. length v = length vec"])
     (metis put_pixel_keeps_length, simp)

lemma draw_column_keeps_length:
  "\<exists>vec'. draw_column nWidth r g b a startY endY x vec = Inr vec' \<and> length vec' = length vec"
  unfolding draw_column_def
  by (rule for_range_invariant [where P = "\<lambda>v. length v = length vec"])
     (metis put_pixel_keeps_length, simp)

lemma fill_rect_keeps_length:
  "\<exists>vec'. fill_rect nWidth r g b a startX startY endX endY vec = Inr vec' \<and>
     length vec' = length vec"
  unfolding fill_rect_def
  by (rule for_range_invariant [where P = "\<lambda>v. length v = length vec"])
     (metis draw_row_keeps_length, simp)

lemma top_border_keeps_length:
  "\<exists>vec'. top_border nWidth nHeight r g b a strokeWidth startX startY endX vec = Inr vec' \<and>
     length vec' = length vec"
  unfolding top_border_def Let_def
  by (rule for_range_invariant [where P = "\<lambda>v. length v = length vec"])
     (metis draw_row_keeps_length, simp)

lemma bottom_border_keeps_length:
  "\<exists>vec'. bottom_border nWidth r g b a strokeWidth startX endX endY vec = Inr vec' \<and>
     length vec' = length vec"
  unfolding bottom_border_def Let_def
  by (rule for_range_invariant [where P = "\<lambda>v. length v = length vec"])
     (metis draw_row_keeps_length, simp)

lemma left_border_keeps_length:
  "\<exists>vec'. left_border nWidth r g b a strokeWidth startX startY endY vec = Inr vec' \<and>
     length vec' = length vec"
  unfolding left_border_def Let_def
  by (rule for_range_invariant [where P = "\<lambda>v. length v = length vec"])
     (metis draw_column_keeps_length, simp)

lemma right_border_keeps_length:
  "\<exists>vec'. right_border nWidth r g b a strokeWidth endX startY endY vec = Inr vec' \<and>
     length vec' = length vec"
  unfolding right_border_def Let_def
  by (rule for_range_invariant [where P = "\<lambda>v. length v = length vec"])
     (metis draw_column_keeps_length, simp)

lemma borders_keep_length:
  "\<exists>vec'. bind_sum (top_border nWidth nHeight r g b a strokeWidth startX startY endX vec) (\<lambda>v1.
           bind_sum (bottom_border nWidth r g b a strokeWidth startX endX endY v1) (\<lambda>v2.
           bind_sum (left_border nWidth r g b a strokeWidth startX startY endY v2) (\<lambda>v3.
           right_border nWidth r g b a strokeWidth endX startY endY v3))) = Inr vec' \<and>
     length vec' = length vec"
proof -
  obtain v1 where v1: "top_border nWidth nHeight r g b a strokeWidth startX startY endX vec = Inr v1"
    "length v1 = length vec" using top_border_keeps_length by blast
  obtain v2 where v2: "bottom_border nWidth r g b a strokeWidth startX endX endY v1 = Inr v2"
    "length v2 = length v1" using bottom_border_keeps_length by blast
  obtain v3 where v3: "left_border nWidth r g b a strokeWidth startX startY endY v2 = Inr v3"
    "length v3 = length v2" using left_border_keeps_length by blast
  obtain v4 where v4: "right_border nWidth r g b a strokeWidth endX startY endY v3 = Inr v4"
    "length v4 = length v3" using right_border_keeps_length by blast
  show ?thesis using v1 v2 v3 v4 by simp
qed

lemma DrawFeatures_outcome:
  "fst (DrawFeatures style vec nWidth nHeight bbox) = style_outcome style \<and>
   length (snd (DrawFeatures style vec nWidth nHeight bbox)) = length vec"
proof (cases "parse_style_rgb (m_strFillColor style) (255, 0, 0)")
  case (Inl e)
  then show ?thesis by (simp add: DrawFeatures_def style_outcome_def)
next
  case (Inr fill)
  obtain r g b where fill: "fill = (r, g, b)" by (cases fill) auto
  define a :: u8 where "a = word_of_int (m_nOpacity style)"
  define startX where "startX = max 0 (c_div nWidth 2 - c_div (c_div nWidth 4) 2)"
  define startY where "startY = max 0 (c_div nHeight 2 - c_div (c_div nHeight 4) 2)"
  define endX where
    "endX = min (nWidth - 1) (c_div nWidth 2 - c_div (c_div nWidth 4) 2 + c_div nWidth 4)"
  define endY where
    "endY = min (nHeight - 1) (c_div nHeight 2 - c_div (c_div nHeight 4) 2 + c_div nHeight 4)"
  obtain vec1 where vec1: "fill_rect nWidth r g b a startX startY endX endY vec = Inr vec1"
    "length vec1 = length vec" using fill_rect_keeps_length by blast
  show ?thesis
  proof (cases "parse_style_rgb (m_strStrokeColor style) (0, 0, 0)")
    case (Inl e)
    with Inr fill vec1 show ?thesis
      by (simp add: DrawFeatures_def style_outcome_def Let_def a_def startX_def startY_def
          endX_def endY_def)
  next
    case stroke: (Inr stroke)
    obtain sr sg sb where s: "stroke = (sr, sg, sb)" by (cases stroke) auto
    obtain vec2 where vec2:
      "bind_sum (top_border nWidth nHeight sr sg sb a (max 1 (m_nStrokeWidth style))
                   startX startY endX vec1) (\<lambda>v1.
       bind_sum (bottom_border nWidth sr sg sb a (max 1 (m_nStrokeWidth style))
                   startX endX endY v1) (\<lambda>v2.
       bind_sum (left_border nWidth sr sg sb a (max 1 (m_nStrokeWidth style))
                   startX startY endY v2) (\<lambda>v3.
       right_border nWidth sr sg sb a (max 1 (m_nStrokeWidth style))
                   endX startY endY v3))) = Inr vec2"
      "length vec2 = length vec1"
      using borders_keep_length by blast
    with Inr fill vec1 stroke s show ?thesis
      by (simp add: DrawFeatures_def style_outcome_def Let_def a_def startX_def startY_def
          endX_def endY_def)
  qed
qed


lemma isxdigit_facts:
  assumes "isxdigit c"
  shows "\<not> isspace c" "c \<noteq> CHR ''-''" "c \<noteq> CHR ''+''" "hex_digit_value c \<le> 15"
  using assms by (auto simp: isxdigit_def isspace_def hex_digit_value_def Let_def)

lemma stoi16_two_hex:
  assumes "isxdigit c" "isxdigit d"
  shows "stoi16 [c, d] = Inr (int (16 * hex_digit_value c + hex_digit_value d))"
proof -
  have "hex_digit_value c \<le> 15" "hex_digit_value d \<le> 15"
    using assms isxdigit_facts(4) by blast+
  then have "16 * hex_digit_value c + hex_digit_value d \<le> 255" by linarith
  then show ?thesis
    using assms isxdigit_facts(1-3) [OF assms(1)]
    by (simp add: stoi16_def has_0x_prefix_def Let_def mult.commute)
qed

lemma stoi16_faults: "stoi16 s = Inl e \<Longrightarrow> e = StdInvalidArgument \<or> e = StdOutOfRange"
  by (auto simp: stoi16_def Let_def split: if_splits)

lemma two_chars: "pos + 2 \<le> length hex \<Longrightarrow> take 2 (drop pos hex) = [hex ! pos, hex ! (pos + 1)]"
  by (simp add: numeral_2_eq_2 take_Suc_conv_app_nth)

lemma hex_channel_hex:
  assumes "pos + 2 \<le> length hex" "list_all isxdigit hex"
  shows "hex_channel hex pos = Inr (hex_pair hex pos)"
proof -
  have "isxdigit (hex ! pos)" "isxdigit (hex ! (pos + 1))"
    using assms by (simp_all add: list_all_length)
  then show ?thesis
    using assms(1) by (simp add: hex_channel_def two_chars stoi16_two_hex hex_pair_def)
qed

lemma hex_channel_faults: "hex_channel hex pos = Inl e \<Longrightarrow> e \<noteq> OutOfBoundsAccess"
  using stoi16_faults by (auto simp: hex_channel_def bind_sum_def split: sum.splits)

lemma parse_background_faults: "parse_background s = Inl e \<Longrightarrow> e \<noteq> OutOfBoundsAccess"
  using hex_channel_faults
  by (auto simp: parse_background_def bind_sum_def Let_def split: if_splits sum.splits)

lemma parse_style_rgb_faults: "parse_style_rgb s d = Inl e \<Longrightarrow> e \<noteq> OutOfBoundsAccess"
  using hex_channel_faults
  by (auto simp: parse_style_rgb_def bind_sum_def Let_def split: if_splits sum.splits)

lemma style_outcome_in_bounds: "style_outcome style \<noteq> Inl OutOfBoundsAccess"
  using parse_style_rgb_faults
  by (auto simp: style_outcome_def split: sum.splits)

lemma parse_background_white:
  assumes "s = [] \<or> hd s \<noteq> CHR ''#'' \<or> (length s \<noteq> 7 \<and> length s \<noteq> 9)"
  shows "parse_background s = Inr (255, 255, 255, 255)"
  using assms by (cases s) (auto simp: parse_background_def Let_def)

lemma parse_background_rgb:
  assumes "length hex = 6" "list_all isxdigit hex"
  shows "parse_background (CHR ''#'' # hex) =
     Inr (hex_pair hex 0, hex_pair hex 2, hex_pair hex 4, 255)"
  using assms by (simp add: parse_background_def hex_channel_hex)

lemma parse_background_rgba:
  assumes "length hex = 8" "list_all isxdigit hex"
  shows "parse_background (CHR ''#'' # hex) =
     Inr (hex_pair hex 0, hex_pair hex 2, hex_pair hex 4, hex_pair hex 6)"
  using assms by (simp add: parse_background_def hex_channel_hex)

lemma take_after_store:
  assumes "i + 3 < length vec"
  shows "take (i + 4) (vec[i := r, i + 1 := g, i + 2 := b, i + 3 := a]) = take i vec @ [r, g, b, a]"
proof -
  have "take (i + 4) (vec[i := r, i + 1 := g, i + 2 := b, i + 3 := a]) =
        take (Suc (Suc (Suc (Suc i)))) (vec[i := r, Suc i := g, Suc (Suc i) := b, Suc (Suc (Suc i)) := a])"
    by (simp add: numeral_eq_Suc)
  also have "\<dots> = take i vec @ [r, g, b, a]"
    using assms by (simp add: take_Suc_conv_app_nth nth_list_update)
  finally show ?thesis .
qed

lemma fill_loop_pattern:
  assumes "length vec = i + 4 * m"
  shows "fill_loop i (i + 4 * m) r g b a vec = Inr (take i vec @ concat (replicate m [r, g, b, a]))"
  using assms
proof (induction m arbitrary: i vec)
  case 0
  then show ?case by (subst fill_loop.simps) simp
next
  case (Suc m)
  let ?vec' = "vec[i := r, i + 1 := g, i + 2 := b, i + 3 := a]"
  have st: "store_rgba vec i r g b a = Inr ?vec'"
    using Suc.prems by (intro store_rgba_in_range) simp
  have len: "length ?vec' = (i + 4) + 4 * m" using Suc.prems by simp
  have "fill_loop (i + 4) ((i + 4) + 4 * m) r g b a ?vec' =
        Inr (take (i + 4) ?vec' @ concat (replicate m [r, g, b, a]))"
    using Suc.IH [OF len] .
  moreover have "take (i + 4) ?vec' = take i vec @ [r, g, b, a]"
    using Suc.prems by (intro take_after_store) simp
  moreover have "(i + 4) + 4 * m = i + 4 * Suc m" by simp
  ultimately have "fill_loop (i + 4) (i + 4 * Suc m) r g b a ?vec' =
        Inr (take i vec @ concat (replicate (Suc m) [r, g, b, a]))"
    by simp
  then show ?case
    using st by (subst fill_loop.simps) simp
qed

lemma data_size_multiple:
  fixes k :: size_t
  shows "\<exists>m. unat (k * 4) = 4 * m"
proof -
  have e: "unat (k * 4) = (unat k * 4) mod 2 ^ 64"
    by (simp add: unat_word_ariths)
  have "(4::nat) dvd 2 ^ 64" by (simp add: dvd_def)
  then have "4 dvd unat (k * 4)" unfolding e by (simp add: dvd_mod)
  then show ?thesis by (auto simp: dvd_def)
qed

lemma unat_of_nat_small: "q < 2 ^ 64 \<Longrightarrow> unat (of_nat q :: size_t) = q"
  by (simp add: unat_of_nat)

lemma data_size_exact:
  assumes "0 < w" "w \<le> 2147483647" "0 < h" "h \<le> 2147483647"
  shows "unat (word_of_int w * word_of_int h * 4 :: size_t) = 4 * (nat w * nat h)"
proof -
  define p where "p = nat w * nat h"
  have "nat w \<le> 2147483647" "nat h \<le> 2147483647" using assms by simp_all
  then have "p \<le> 2147483647 * 2147483647" unfolding p_def by (rule mult_le_mono)
  then have "p * 4 < 2 ^ 64" by simp
  then have u: "unat (of_nat (p * 4) :: size_t) = p * 4" by (rule unat_of_nat_small)
  have w: "(word_of_int w :: size_t) = of_nat (nat w)" by (rule word_of_int_nat) (use assms in simp)
  have h: "(word_of_int h :: size_t) = of_nat (nat h)" by (rule word_of_int_nat) (use assms in simp)
  have "(of_nat (p * 4) :: size_t) = word_of_int w * word_of_int h * 4"
    unfolding w h p_def by simp
  with u have "unat (word_of_int w * word_of_int h * 4 :: size_t) = p * 4" by (simp only:)
  then show ?thesis by (simp add: p_def)
qed

lemma vec_resize_length: "length (vec_resize n vec) = n"
  by (simp add: vec_resize_def)

lemma CreateBlankImage_result:
  assumes "0 < w" "0 < h"
  shows "CreateBlankImage eng w h bg vec0 =
     (case parse_background bg of
        Inl e \<Rightarrow> (Inl e, vec0, eng)
      | Inr (r, g, b, a) \<Rightarrow>
          (Inr True,
           concat (replicate (unat (word_of_int w * word_of_int h * 4 :: size_t) div 4) [r, g, b, a]),
           eng))"
proof (cases "parse_background bg")
  case (Inl e)
  with assms show ?thesis by (simp add: CreateBlankImage_def)
next
  case (Inr c)
  obtain r g b a where c: "c = (r, g, b, a)" by (cases c) auto
  define n where "n = unat (word_of_int w * word_of_int h * 4 :: size_t)"
  obtain m where m: "n = 4 * m" unfolding n_def using data_size_multiple by blast
  have "fill_loop 0 (0 + 4 * m) r g b a (vec_resize n vec0) =
        Inr (take 0 (vec_resize n vec0) @ concat (replicate m [r, g, b, a]))"
    by (rule fill_loop_pattern) (simp add: vec_resize_length m)
  then have "fill_loop 0 n r g b a (vec_resize n vec0) = Inr (concat (replicate (n div 4) [r, g, b, a]))"
    using m by simp
  with assms Inr c show ?thesis
    by (simp add: CreateBlankImage_def Let_def n_def)
qed


section \<open>The blank canvas and the length of the buffer\<close>

lemma CreateBlankImage_in_range:
  assumes "0 < w" "w \<le> 2147483647" "0 < h" "h \<le> 2147483647"
  shows "CreateBlankImage eng w h bg vec0 =
     (case parse_background bg of
        Inl e \<Rightarrow> (Inl e, vec0, eng)
      | Inr (r, g, b, a) \<Rightarrow>
          (Inr True, concat (replicate (nat w * nat h) [r, g, b, a]), eng))"
proof -
  have n: "unat (word_of_int w * word_of_int h * 4 :: size_t) div 4 = nat w * nat h"
    using data_size_exact [OF assms] by simp
  show ?thesis
    unfolding CreateBlankImage_result [OF assms(1,3)] n by (rule refl)
qed

text \<open>
  Claim C5, as stated, has the \<^verbatim>\<open>#RGB\<close> form parsed. The source accepts a hexadecimal part
  of 6 or 8 characters only: for \<^verbatim>\<open>#000\<close>, black in the \<^verbatim>\<open>#RGB\<close> form, the one pixel of a
  1 by 1 image is opaque white.
\<close>

theorem CreateBlankImage_counterexample:
  "CreateBlankImage \<lparr> m_config = GetDefaultConfig, m_strError = [], m_bInitialized = True \<rparr>
     1 1 ''#000'' [] =
     (Inr True, [255, 255, 255, 255],
      \<lparr> m_config = GetDefaultConfig, m_strError = [], m_bInitialized = True \<rparr>) \<and>
   fst (snd (CreateBlankImage
     \<lparr> m_config = GetDefaultConfig, m_strError = [], m_bInitialized = True \<rparr>
     1 1 ''#000'' [])) \<noteq> [0, 0, 0, 255]"
proof -
  have "parse_background ''#000'' = Inr (255, 255, 255, 255)"
    by (rule parse_background_white) simp
  then show ?thesis
    using CreateBlankImage_in_range [of 1 1
        "\<lparr> m_config = GetDefaultConfig, m_strError = [], m_bInitialized = True \<rparr>" "''#000''" "[]"]
    by simp
qed

text \<open>
  Claim C5, amended. For a width and a height above 0, \<^verbatim>\<open>CreateBlankImage\<close> returns \<^verbatim>\<open>true\<close>
  with a vector of exactly \<open>width * height * 4\<close> bytes in which every pixel is: the colour
  that the six hexadecimal digits after \<^verbatim>\<open>#\<close> denote, opaque (\<^verbatim>\<open>#RRGGBB\<close>); the colour and
  the alpha that eight digits denote (\<^verbatim>\<open>#RRGGBBAA\<close>); opaque white when the string is empty,
  does not start with \<^verbatim>\<open>#\<close>, or has another length, the \<^verbatim>\<open>#RGB\<close> form included. Nothing is
  stated for a string of an accepted length with a character that is no digit.
\<close>

theorem CreateBlankImage_fills:
  "0 < w \<and> w \<le> 2147483647 \<and> 0 < h \<and> h \<le> 2147483647 \<longrightarrow>
     (length hex = 6 \<and> list_all isxdigit hex \<longrightarrow>
        CreateBlankImage eng w h (CHR ''#'' # hex) vec0 =
          (Inr True,
           concat (replicate (nat w * nat h) [hex_pair hex 0, hex_pair hex 2, hex_pair hex 4, 255]),
           eng)) \<and>
     (length hex = 8 \<and> list_all isxdigit hex \<longrightarrow>
        CreateBlankImage eng w h (CHR ''#'' # hex) vec0 =
          (Inr True,
           concat (replicate (nat w * nat h)
             [hex_pair hex 0, hex_pair hex 2, hex_pair hex 4, hex_pair hex 6]),
           eng)) \<and>
     (bg = [] \<or> hd bg \<noteq> CHR ''#'' \<or> (length bg \<noteq> 7 \<and> length bg \<noteq> 9) \<longrightarrow>
        CreateBlankImage eng w h bg vec0 =
          (Inr True, concat (replicate (nat w * nat h) [255, 255, 255, 255]), eng)) \<and>
     (fst (CreateBlankImage eng w h bg vec0) = Inr True \<longrightarrow>
        length (fst (snd (CreateBlankImage eng w h bg vec0))) = nat (w * h * 4))"
proof (intro impI)
  assume b: "0 < w \<and> w \<le> 2147483647 \<and> 0 < h \<and> h \<le> 2147483647"
  then have r: "\<And>bg. CreateBlankImage eng w h bg vec0 =
     (case parse_background bg of
        Inl e \<Rightarrow> (Inl e, vec0, eng)
      | Inr (r, g, b, a) \<Rightarrow>
          (Inr True, concat (replicate (nat w * nat h) [r, g, b, a]), eng))"
    by (intro CreateBlankImage_in_range) simp_all
  have six: "length hex = 6 \<and> list_all isxdigit hex \<longrightarrow>
        CreateBlankImage eng w h (CHR ''#'' # hex) vec0 =
          (Inr True,
           concat (replicate (nat w * nat h) [hex_pair hex 0, hex_pair hex 2, hex_pair hex 4, 255]),
           eng)"
    by (simp add: r parse_background_rgb)
  have eight: "length hex = 8 \<and> list_all isxdigit hex \<longrightarrow>
        CreateBlankImage eng w h (CHR ''#'' # hex) vec0 =
          (Inr True,
           concat (replicate (nat w * nat h)
             [hex_pair hex 0, hex_pair hex 2, hex_pair hex 4, hex_pair hex 6]),
           eng)"
    by (simp add: r parse_background_rgba)
  have white: "bg = [] \<or> hd bg \<noteq> CHR ''#'' \<or> (length bg \<noteq> 7 \<and> length bg \<noteq> 9) \<longrightarrow>
        CreateBlankImage eng w h bg vec0 =
          (Inr True, concat (replicate (nat w * nat h) [255, 255, 255, 255]), eng)"
    using parse_background_white [of bg] by (auto simp: r)
  have "nat (w * h * 4) = 4 * (nat w * nat h)"
    using b by (simp add: nat_mult_distrib)
  then have len: "fst (CreateBlankImage eng w h bg vec0) = Inr True \<longrightarrow>
        length (fst (snd (CreateBlankImage eng w h bg vec0))) = nat (w * h * 4)"
    by (auto simp: r length_concat sum_list_replicate split: sum.splits)
  show "(length hex = 6 \<and> list_all isxdigit hex \<longrightarrow>
        CreateBlankImage eng w h (CHR ''#'' # hex) vec0 =
          (Inr True,
           concat (replicate (nat w * nat h) [hex_pair hex 0, hex_pair hex 2, hex_pair hex 4, 255]),
           eng)) \<and>
     (length hex = 8 \<and> list_all isxdigit hex \<longrightarrow>
        CreateBlankImage eng w h (CHR ''#'' # hex) vec0 =
          (Inr True,
           concat (replicate (nat w * nat h)
             [hex_pair hex 0, hex_pair hex 2, hex_pair hex 4, hex_pair hex 6]),
           eng)) \<and>
     (bg = [] \<or> hd bg \<noteq> CHR ''#'' \<or> (length bg \<noteq> 7 \<and> length bg \<noteq> 9) \<longrightarrow>
        CreateBlankImage eng w h bg vec0 =
          (Inr True, concat (replicate (nat w * nat h) [255, 255, 255, 255]), eng)) \<and>
     (fst (CreateBlankImage eng w h bg vec0) = Inr True \<longrightarrow>
        length (fst (snd (CreateBlankImage eng w h bg vec0))) = nat (w * h * 4))"
    using six eight white len by (intro conjI)
qed

theorem CreateBlankImage_fills_witness:
  "CreateBlankImage \<lparr> m_config = GetDefaultConfig, m_strError = [], m_bInitialized = True \<rparr>
     2 1 ''#01fF80'' [] =
     (Inr True, [1, 255, 128, 255, 1, 255, 128, 255],
      \<lparr> m_config = GetDefaultConfig, m_strError = [], m_bInitialized = True \<rparr>) \<and>
   CreateBlankImage \<lparr> m_config = GetDefaultConfig, m_strError = [], m_bInitialized = True \<rparr>
     1 1 ''#0a0B0c0D'' [] =
     (Inr True, [10, 11, 12, 13],
      \<lparr> m_config = GetDefaultConfig, m_strError = [], m_bInitialized = True \<rparr>) \<and>
   CreateBlankImage \<lparr> m_config = GetDefaultConfig, m_strError = [], m_bInitialized = True \<rparr>
     1 2 ''white'' [] =
     (Inr True, [255, 255, 255, 255, 255, 255, 255, 255],
      \<lparr> m_config = GetDefaultConfig, m_strError = [], m_bInitialized = True \<rparr>)"
proof -
  let ?eng = "\<lparr> m_config = GetDefaultConfig, m_strError = [], m_bInitialized = True \<rparr>"
  have p: "hex_pair ''01fF80'' 0 = 1" "hex_pair ''01fF80'' 2 = 255" "hex_pair ''01fF80'' 4 = 128"
    "hex_pair ''0a0B0c0D'' 0 = 10" "hex_pair ''0a0B0c0D'' 2 = 11" "hex_pair ''0a0B0c0D'' 4 = 12"
    "hex_pair ''0a0B0c0D'' 6 = 13"
    by (simp_all add: hex_pair_def hex_digit_value_def)
  have r2: "replicate 2 x = [x, x]" for x :: "u8 list"
    by (simp add: numeral_2_eq_2)
  show ?thesis
    using CreateBlankImage_fills [of 2 1 "''01fF80''" ?eng "[]" "''#01fF80''"]
      CreateBlankImage_fills [of 1 1 "''0a0B0c0D''" ?eng "[]" "''#0a0B0c0D''"]
      CreateBlankImage_fills [of 1 2 "[]" ?eng "[]" "''white''"]
    by (simp add: isxdigit_def p r2)
qed

lemma DrawFeatures_in_bounds:
  "fst (DrawFeatures style vec nWidth nHeight bbox) \<noteq> Inl OutOfBoundsAccess"
  using DrawFeatures_outcome [of style vec nWidth nHeight bbox] style_outcome_in_bounds [of style]
  by simp

lemma CreateBlankImage_in_bounds:
  "fst (CreateBlankImage eng w h bg vec0) \<noteq> Inl OutOfBoundsAccess"
proof (cases "0 < w \<and> 0 < h")
  case True
  then show ?thesis
    using CreateBlankImage_result [of w h eng bg vec0] parse_background_faults [of bg]
    by (auto split: sum.splits)
next
  case False
  then show ?thesis by (auto simp: CreateBlankImage_def)
qed

text \<open>
  Claim C9. When \<^verbatim>\<open>CreateBlankImage\<close> returns \<^verbatim>\<open>true\<close> the vector has exactly
  \<open>width * height * 4\<close> bytes, one group R, G, B, A of the parsed background per pixel.
  Every call of \<^verbatim>\<open>DrawFeatures\<close>, for any style, size and box, leaves the length of the
  vector as it was, whether it returns or a colour raises, and neither function ever stores
  outside the vector.
\<close>

theorem canvas_length_invariant:
  "(0 < w \<and> w \<le> 2147483647 \<and> 0 < h \<and> h \<le> 2147483647 \<and>
    CreateBlankImage eng w h bg vec0 = (Inr True, canvas, eng') \<longrightarrow>
      length canvas = nat (w * h * 4) \<and>
      (\<exists>r g b a. parse_background bg = Inr (r, g, b, a) \<and>
         canvas = concat (replicate (nat (w * h)) [r, g, b, a]))) \<and>
   fst (CreateBlankImage eng w h bg vec0) \<noteq> Inl OutOfBoundsAccess \<and>
   length (snd (DrawFeatures style vec nWidth nHeight bbox)) = length vec \<and>
   fst (DrawFeatures style vec nWidth nHeight bbox) \<noteq> Inl OutOfBoundsAccess"
proof -
  have "length canvas = nat (w * h * 4) \<and>
      (\<exists>r g b a. parse_background bg = Inr (r, g, b, a) \<and>
         canvas = concat (replicate (nat (w * h)) [r, g, b, a]))"
    if b: "0 < w" "w \<le> 2147483647" "0 < h" "h \<le> 2147483647"
      and c: "CreateBlankImage eng w h bg vec0 = (Inr True, canvas, eng')"
  proof -
    have n: "nat (w * h) = nat w * nat h" "nat (w * h * 4) = 4 * (nat w * nat h)"
      using b by (simp_all add: nat_mult_distrib)
    from c CreateBlankImage_in_range [OF b, of eng bg vec0]
    obtain r g b a where "parse_background bg = Inr (r, g, b, a)"
      "canvas = concat (replicate (nat w * nat h) [r, g, b, a])"
      by (auto split: sum.splits)
    then show ?thesis
      by (simp add: n length_concat sum_list_replicate)
  qed
  then show ?thesis
    using CreateBlankImage_in_bounds [of eng w h bg vec0]
      DrawFeatures_outcome [of style vec nWidth nHeight bbox]
      DrawFeatures_in_bounds [of style vec nWidth nHeight bbox]
    by blast
qed

theorem canvas_length_invariant_witness:
  "CreateBlankImage \<lparr> m_config = GetDefaultConfig, m_strError = [], m_bInitialized = True \<rparr>
     1 1 ''#ffffff'' [] =
     (Inr True, [255, 255, 255, 255],
      \<lparr> m_config = GetDefaultConfig, m_strError = [], m_bInitialized = True \<rparr>) \<and>
   length [255, 255, 255, 255 :: u8] = nat (1 * 1 * 4) \<and>
   DrawFeatures defaultStyle [255, 255, 255, 255] 1 1
     \<lparr> m_dMinX = 0, m_dMinY = 0, m_dMaxX = 1, m_dMaxY = 1 \<rparr> = (Inr True, [0, 0, 0, 255]) \<and>
   length (snd (DrawFeatures defaultStyle [255, 255, 255, 255] 1 1
     \<lparr> m_dMinX = 0, m_dMinY = 0, m_dMaxX = 1, m_dMaxY = 1 \<rparr>)) = 4"
proof -
  let ?eng = "\<lparr> m_config = GetDefaultConfig, m_strError = [], m_bInitialized = True \<rparr>"
  let ?bbox = "\<lparr> m_dMinX = 0 :: double, m_dMinY = 0, m_dMaxX = 1, m_dMaxY = 1 \<rparr>"
  have c: "CreateBlankImage ?eng 1 1 ''#ffffff'' [] = (Inr True, [255, 255, 255, 255], ?eng)"
    by code_simp
  have "DrawFeatures defaultStyle [255, 255, 255, 255] 1 1 bbox = (Inr True, [0, 0, 0, 255])"
    for bbox
    by code_simp
  then have d: "DrawFeatures defaultStyle [255, 255, 255, 255] 1 1 ?bbox =
      (Inr True, [0, 0, 0, 255])" .
  show ?thesis
    using canvas_length_invariant [of 1 1 ?eng "''#ffffff''" "[]" "[255, 255, 255, 255]" ?eng
        defaultStyle "[255, 255, 255, 255]" 1 1 ?bbox] c d
    by simp
qed

section \<open>Colours that do not parse\<close>

text \<open>
  Claim C6, at the failing input. A colour of an accepted length whose channel starts with
  a character that is no digit makes \<^verbatim>\<open>std::stoi\<close> throw \<^verbatim>\<open>std::invalid_argument\<close>:
  \<^verbatim>\<open>CreateBlankImage\<close>, \<^verbatim>\<open>DrawFeatures\<close> and \<^verbatim>\<open>RenderMap\<close> do not return. When each channel
  starts with a digit the digits read so far are kept, which are neither the default nor
  zero.
\<close>

theorem color_parse_raises:
  "CreateBlankImage \<lparr> m_config = GetDefaultConfig, m_strError = [], m_bInitialized = True \<rparr>
     1 1 ''#zzzzzz'' [] =
     (Inl StdInvalidArgument, [],
      \<lparr> m_config = GetDefaultConfig, m_strError = [], m_bInitialized = True \<rparr>) \<and>
   DrawFeatures (LayerStyle_default \<lparr> m_strFillColor := ''#zzzzzz'' \<rparr>) [255, 255, 255, 255] 1 1
     \<lparr> m_dMinX = 0, m_dMinY = 0, m_dMaxX = 1, m_dMaxY = 1 \<rparr> =
     (Inl StdInvalidArgument, [255, 255, 255, 255]) \<and>
   DrawFeatures (LayerStyle_default \<lparr> m_strStrokeColor := ''#zzzzzz'' \<rparr>) [255, 255, 255, 255] 1 1
     \<lparr> m_dMinX = 0, m_dMinY = 0, m_dMaxX = 1, m_dMaxY = 1 \<rparr> =
     (Inl StdInvalidArgument, [204, 204, 204, 255]) \<and>
   RenderMap \<lparr> EncodeToMemory = (\<lambda>img w h. Some img), fresh_encoder_error = [] \<rparr>
     \<lparr> m_config = GetDefaultConfig, m_strError = [], m_bInitialized = True \<rparr>
     \<lparr> m_bbox = \<lparr> m_dMinX = 0, m_dMinY = 0, m_dMaxX = 1, m_dMaxY = 1 \<rparr>, m_nWidth = 1,
       m_nHeight = 1, m_vecLayers = [''roads''],
       m_mapStyles = [''roads'' \<mapsto> LayerStyle_default \<lparr> m_strFillColor := ''#zzzzzz'' \<rparr>],
       m_strBackgroundColor = ''#ffffff'', m_strFilter = [] \<rparr> =
     (Inl StdInvalidArgument,
      \<lparr> m_config = GetDefaultConfig, m_strError = [], m_bInitialized = True \<rparr>) \<and>
   parse_background ''#1z2z3z'' = Inr (1, 2, 3, 255)"
proof -
  let ?eng = "\<lparr> m_config = GetDefaultConfig, m_strError = [], m_bInitialized = True \<rparr>"
  have c: "CreateBlankImage ?eng 1 1 ''#zzzzzz'' [] = (Inl StdInvalidArgument, [], ?eng)"
    "CreateBlankImage ?eng 1 1 ''#ffffff'' [] = (Inr True, [255, 255, 255, 255], ?eng)"
    by code_simp+
  have d: "DrawFeatures (LayerStyle_default \<lparr> m_strFillColor := ''#zzzzzz'' \<rparr>)
        [255, 255, 255, 255] 1 1 bbox = (Inl StdInvalidArgument, [255, 255, 255, 255])"
    "DrawFeatures (LayerStyle_default \<lparr> m_strStrokeColor := ''#zzzzzz'' \<rparr>)
        [255, 255, 255, 255] 1 1 bbox = (Inl StdInvalidArgument, [204, 204, 204, 255])" for bbox
    by code_simp+
  have g: "m_nMaxImageWidth GetDefaultConfig = 4096" "m_nMaxImageHeight GetDefaultConfig = 4096"
    by (simp_all add: GetDefaultConfig_def)
  have p: "parse_background ''#1z2z3z'' = Inr (1, 2, 3, 255)"
    by code_simp
  show ?thesis
    using unit_box_valid(1) by (simp add: RenderMap_def c d g p)
qed

section \<open>Compositing the layers\<close>

lemma style_outcome_not_False: "style_outcome style \<noteq> Inr False"
  by (auto simp: style_outcome_def split: sum.splits)

lemma first_fault_Nil: "first_fault [] = None"
  by (simp add: first_fault_def)

lemma first_fault_Cons:
  "first_fault (style # later) =
     (case style_outcome style of Inl e \<Rightarrow> Some e | Inr ok \<Rightarrow> first_fault later)"
proof (cases "style_outcome style")
  case (Inl e)
  then show ?thesis by (simp add: first_fault_def)
next
  case (Inr ok)
  then have "ok" using style_outcome_not_False [of style] by (cases ok) auto
  with Inr show ?thesis by (simp add: first_fault_def)
qed

lemma spec_composite_Cons:
  "spec_composite (style # later) w h bbox canvas =
     spec_composite later w h bbox (snd (DrawFeatures style canvas w h bbox))"
  by (simp add: spec_composite_def)

lemma RenderMap_layers_result:
  fixes request :: MapRequest
  defines "resolve \<equiv> \<lambda>layerName. case m_mapStyles request layerName of
                                     Some style \<Rightarrow> style
                                   | None \<Rightarrow> LayerStyle_default"
  shows "fst (RenderMap_layers request layers vec) =
           (case first_fault (map resolve layers) of Some e \<Rightarrow> Inl e | None \<Rightarrow> Inr True) \<and>
         (first_fault (map resolve layers) = None \<longrightarrow>
            snd (RenderMap_layers request layers vec) =
              spec_composite (map resolve layers) (m_nWidth request) (m_nHeight request)
                (m_bbox request) vec)"
proof (induction layers arbitrary: vec)
  case Nil
  show ?case by (simp add: first_fault_Nil spec_composite_def)
next
  case (Cons layerName rest)
  obtain out vec' where d: "DrawFeatures (resolve layerName) vec (m_nWidth request)
      (m_nHeight request) (m_bbox request) = (out, vec')"
    by (cases "DrawFeatures (resolve layerName) vec (m_nWidth request) (m_nHeight request)
      (m_bbox request)") auto
  have out: "out = style_outcome (resolve layerName)"
    using DrawFeatures_outcome [of "resolve layerName" vec "m_nWidth request"
        "m_nHeight request" "m_bbox request"] d by simp
  have step: "spec_composite (map resolve (layerName # rest)) (m_nWidth request)
      (m_nHeight request) (m_bbox request) vec =
    spec_composite (map resolve rest) (m_nWidth request) (m_nHeight request) (m_bbox request) vec'"
    using d by (simp add: spec_composite_Cons)
  have unfold: "RenderMap_layers request (layerName # rest) vec =
     (case out of
        Inl e \<Rightarrow> (Inl e, vec')
      | Inr ok \<Rightarrow> if \<not> ok then (Inr False, vec') else RenderMap_layers request rest vec')"
    using d by (simp add: resolve_def)
  show ?case
  proof (cases "style_outcome (resolve layerName)")
    case (Inl e)
    then show ?thesis
      unfolding unfold out by (simp add: first_fault_Cons)
  next
    case (Inr ok)
    then have ok: "ok" using style_outcome_not_False [of "resolve layerName"] by (cases ok) auto
    show ?thesis
      unfolding unfold out step using Inr ok Cons.IH [of vec']
      by (simp add: first_fault_Cons)
  qed
qed

lemma defaultStyle_outcome: "style_outcome defaultStyle = Inr True"
  by code_simp

lemma drawing_stage:
  fixes request :: MapRequest
  defines "drawn \<equiv> \<lambda>vec.
     (if m_vecLayers request = [] then
        DrawFeatures defaultStyle vec (m_nWidth request) (m_nHeight request) (m_bbox request)
      else RenderMap_layers request (m_vecLayers request) vec)"
  shows "fst (drawn vec) =
           (case first_fault (spec_layer_styles request) of Some e \<Rightarrow> Inl e | None \<Rightarrow> Inr True) \<and>
         (first_fault (spec_layer_styles request) = None \<longrightarrow>
            snd (drawn vec) =
              spec_composite (spec_layer_styles request) (m_nWidth request) (m_nHeight request)
                (m_bbox request) vec)"
proof (cases "m_vecLayers request = []")
  case True
  then show ?thesis
    using DrawFeatures_outcome [of defaultStyle vec "m_nWidth request" "m_nHeight request"
        "m_bbox request"]
    by (simp add: drawn_def spec_layer_styles_def first_fault_Cons first_fault_Nil
        defaultStyle_outcome spec_composite_def)
next
  case False
  then show ?thesis
    using RenderMap_layers_result [of request "m_vecLayers request" vec]
    by (simp add: drawn_def spec_layer_styles_def)
qed

lemma RenderMap_passing:
  assumes init: "m_bInitialized eng" and valid: "IsValid (m_bbox request)"
    and w: "0 < m_nWidth request" "m_nWidth request \<le> m_nMaxImageWidth (m_config eng)"
    and h: "0 < m_nHeight request" "m_nHeight request \<le> m_nMaxImageHeight (m_config eng)"
    and m: "m_nMaxImageWidth (m_config eng) \<le> 2147483647"
           "m_nMaxImageHeight (m_config eng) \<le> 2147483647"
  shows "RenderMap png eng request =
     (case parse_background (m_strBackgroundColor request) of
        Inl e \<Rightarrow> (Inl e, eng)
      | Inr (r, g, b, a) \<Rightarrow>
          (case first_fault (spec_layer_styles request) of
             Some e \<Rightarrow> (Inl e, eng)
           | None \<Rightarrow>
               (case EncodeToMemory png
                       (spec_composite (spec_layer_styles request) (m_nWidth request)
                          (m_nHeight request) (m_bbox request)
                          (concat (replicate (nat (m_nWidth request) * nat (m_nHeight request))
                             [r, g, b, a])))
                       (m_nWidth request) (m_nHeight request) of
                  Some vecPngData \<Rightarrow> (Inr (Some vecPngData), eng)
                | None \<Rightarrow>
                    (Inr None,
                     eng \<lparr> m_strError := ''Failed to encode PNG: '' @ fresh_encoder_error png \<rparr>))))"
proof -
  have wb: "m_nWidth request \<le> 2147483647" and hb: "m_nHeight request \<le> 2147483647"
    using w h m by linarith+
  note blank = CreateBlankImage_in_range [OF w(1) wb h(1) hb, of eng
      "m_strBackgroundColor request" "[]"]
  have checks: "\<not> (m_nWidth request \<le> 0 \<or> m_nHeight request \<le> 0 \<or>
      m_nWidth request > m_nMaxImageWidth (m_config eng) \<or>
      m_nHeight request > m_nMaxImageHeight (m_config eng))"
    using w h by simp
  show ?thesis
  proof (cases "parse_background (m_strBackgroundColor request)")
    case (Inl e)
    then show ?thesis
      using init valid checks blank by (simp add: RenderMap_def)
  next
    case (Inr c)
    obtain r g b a where c: "c = (r, g, b, a)" by (cases c) auto
    let ?blank = "concat (replicate (nat (m_nWidth request) * nat (m_nHeight request)) [r, g, b, a])"
    let ?drawn = "if m_vecLayers request = [] then
        DrawFeatures defaultStyle ?blank (m_nWidth request) (m_nHeight request) (m_bbox request)
      else RenderMap_layers request (m_vecLayers request) ?blank"
    have cb: "CreateBlankImage eng (m_nWidth request) (m_nHeight request)
        (m_strBackgroundColor request) [] = (Inr True, ?blank, eng)"
      using blank Inr c by simp
    have rm: "RenderMap png eng request =
      (case ?drawn of
         (Inl e, vec') \<Rightarrow> (Inl e, eng)
       | (Inr drawn, vec') \<Rightarrow>
           if \<not> drawn then (Inr None, eng)
           else
             (case EncodeToMemory png vec' (m_nWidth request) (m_nHeight request) of
                Some vecPngData \<Rightarrow> (Inr (Some vecPngData), eng)
              | None \<Rightarrow>
                  (Inr None,
                   SetError eng (''Failed to encode PNG: '' @ fresh_encoder_error png))))"
      using init valid checks by (simp add: RenderMap_def cb)
    note st = drawing_stage [of request ?blank]
    show ?thesis
    proof (cases "first_fault (spec_layer_styles request)")
      case None
      with st have "fst ?drawn = Inr True"
        and "snd ?drawn = spec_composite (spec_layer_styles request) (m_nWidth request)
          (m_nHeight request) (m_bbox request) ?blank"
        by simp_all
      then have "?drawn = (Inr True,
          spec_composite (spec_layer_styles request) (m_nWidth request) (m_nHeight request)
            (m_bbox request) ?blank)"
        by (simp add: prod_eq_iff)
      then have dr: "?drawn = (Inr True,
          spec_composite (spec_layer_styles request) (m_nWidth request) (m_nHeight request)
            (m_bbox request) ?blank)" .
      have "RenderMap png eng request =
             (case EncodeToMemory png (spec_composite (spec_layer_styles request)
                     (m_nWidth request) (m_nHeight request) (m_bbox request) ?blank)
                     (m_nWidth request) (m_nHeight request) of
                Some vecPngData \<Rightarrow> (Inr (Some vecPngData), eng)
              | None \<Rightarrow>
                  (Inr None,
                   SetError eng (''Failed to encode PNG: '' @ fresh_encoder_error png)))"
        unfolding rm dr by simp
      then show ?thesis
        unfolding SetError_def by (simp only: Inr c None sum.case prod.case option.case)
    next
      case (Some e)
      with st have f: "fst ?drawn = Inl e" by simp
      obtain out vec' where dr0: "?drawn = (out, vec')" by (cases ?drawn) auto
      from f have dr: "?drawn = (Inl e, vec')" unfolding dr0 by simp
      have "RenderMap png eng request = (Inl e, eng)"
        unfolding rm dr by simp
      then show ?thesis
        by (simp only: Inr c Some sum.case prod.case option.case)
    qed
  qed
qed

text \<open>
  The outcome of \<^verbatim>\<open>RenderMap\<close> in full. It returns \<^verbatim>\<open>false\<close> with the message of the first
  check that fails. For a request that passes the checks, the canvas handed to the encoder
  is the blank canvas of the background colour with one placeholder drawn per style of
  \<open>spec_layer_styles\<close>, in list order, unless a colour raises: then the call ends with that
  fault, the background's, else that of the first layer with such a colour.
\<close>

lemma RenderMap_outcome:
  "(\<not> m_bInitialized eng \<longrightarrow>
      RenderMap png eng request =
        (Inr None, eng \<lparr> m_strError := ''RenderEngine not initialized'' \<rparr>)) \<and>
   (m_bInitialized eng \<and> \<not> IsValid (m_bbox request) \<longrightarrow>
      RenderMap png eng request = (Inr None, eng \<lparr> m_strError := ''Invalid bounding box'' \<rparr>)) \<and>
   (m_bInitialized eng \<and> IsValid (m_bbox request) \<and>
    (m_nWidth request \<le> 0 \<or> m_nHeight request \<le> 0 \<or>
     m_nWidth request > m_nMaxImageWidth (m_config eng) \<or>
     m_nHeight request > m_nMaxImageHeight (m_config eng)) \<longrightarrow>
      RenderMap png eng request =
        (Inr None, eng \<lparr> m_strError := ''Invalid image dimensions'' \<rparr>)) \<and>
   (passes_checks eng request \<and>
    m_nMaxImageWidth (m_config eng) \<le> 2147483647 \<and>
    m_nMaxImageHeight (m_config eng) \<le> 2147483647 \<longrightarrow>
      RenderMap png eng request =
        (case parse_background (m_strBackgroundColor request) of
           Inl e \<Rightarrow> (Inl e, eng)
         | Inr (r, g, b, a) \<Rightarrow>
             (case first_fault (spec_layer_styles request) of
                Some e \<Rightarrow> (Inl e, eng)
              | None \<Rightarrow>
                  (case EncodeToMemory png
                          (spec_composite (spec_layer_styles request) (m_nWidth request)
                             (m_nHeight request) (m_bbox request)
                             (concat (replicate (nat (m_nWidth request) * nat (m_nHeight request))
                                [r, g, b, a])))
                          (m_nWidth request) (m_nHeight request) of
                     Some vecPngData \<Rightarrow> (Inr (Some vecPngData), eng)
                   | None \<Rightarrow>
                       (Inr None,
                        eng \<lparr> m_strError :=
                                ''Failed to encode PNG: '' @ fresh_encoder_error png \<rparr>)))))"
proof -
  have a: "\<not> m_bInitialized eng \<longrightarrow>
      RenderMap png eng request =
        (Inr None, eng \<lparr> m_strError := ''RenderEngine not initialized'' \<rparr>)"
    by (simp add: RenderMap_def SetError_def)
  have b: "m_bInitialized eng \<and> \<not> IsValid (m_bbox request) \<longrightarrow>
      RenderMap png eng request = (Inr None, eng \<lparr> m_strError := ''Invalid bounding box'' \<rparr>)"
    by (simp add: RenderMap_def SetError_def)
  have c: "m_bInitialized eng \<and> IsValid (m_bbox request) \<and>
    (m_nWidth request \<le> 0 \<or> m_nHeight request \<le> 0 \<or>
     m_nWidth request > m_nMaxImageWidth (m_config eng) \<or>
     m_nHeight request > m_nMaxImageHeight (m_config eng)) \<longrightarrow>
      RenderMap png eng request =
        (Inr None, eng \<lparr> m_strError := ''Invalid image dimensions'' \<rparr>)"
    by (simp add: RenderMap_def SetError_def)
  show ?thesis
    using a b c RenderMap_passing [of eng request png] unfolding passes_checks_def by blast
qed

text \<open>
  Where no colour raises, the order of the layers is the order of the placeholders: the
  layer drawn last wins the one pixel of a 1 by 1 image.
\<close>

lemma RenderMap_in_order:
  "RenderMap \<lparr> EncodeToMemory = (\<lambda>img w h. Some img), fresh_encoder_error = [] \<rparr>
     \<lparr> m_config = GetDefaultConfig, m_strError = [], m_bInitialized = True \<rparr>
     \<lparr> m_bbox = \<lparr> m_dMinX = 0, m_dMinY = 0, m_dMaxX = 1, m_dMaxY = 1 \<rparr>, m_nWidth = 1,
       m_nHeight = 1, m_vecLayers = [], m_mapStyles = Map.empty,
       m_strBackgroundColor = ''#ffffff'', m_strFilter = [] \<rparr> =
     (Inr (Some [0, 0, 0, 255]),
      \<lparr> m_config = GetDefaultConfig, m_strError = [], m_bInitialized = True \<rparr>) \<and>
   RenderMap \<lparr> EncodeToMemory = (\<lambda>img w h. Some img), fresh_encoder_error = [] \<rparr>
     \<lparr> m_config = GetDefaultConfig, m_strError = [], m_bInitialized = True \<rparr>
     \<lparr> m_bbox = \<lparr> m_dMinX = 0, m_dMinY = 0, m_dMaxX = 1, m_dMaxY = 1 \<rparr>, m_nWidth = 1,
       m_nHeight = 1, m_vecLayers = [''roads'', ''rivers''],
       m_mapStyles = [''roads'' \<mapsto> LayerStyle_default \<lparr> m_strStrokeColor := ''#00ff00'' \<rparr>],
       m_strBackgroundColor = ''#ffffff'', m_strFilter = [] \<rparr> =
     (Inr (Some [0, 0, 0, 255]),
      \<lparr> m_config = GetDefaultConfig, m_strError = [], m_bInitialized = True \<rparr>) \<and>
   RenderMap \<lparr> EncodeToMemory = (\<lambda>img w h. Some img), fresh_encoder_error = [] \<rparr>
     \<lparr> m_config = GetDefaultConfig, m_strError = [], m_bInitialized = True \<rparr>
     \<lparr> m_bbox = \<lparr> m_dMinX = 0, m_dMinY = 0, m_dMaxX = 1, m_dMaxY = 1 \<rparr>, m_nWidth = 1,
       m_nHeight = 1, m_vecLayers = [''rivers'', ''roads''],
       m_mapStyles = [''roads'' \<mapsto> LayerStyle_default \<lparr> m_strStrokeColor := ''#00ff00'' \<rparr>],
       m_strBackgroundColor = ''#ffffff'', m_strFilter = [] \<rparr> =
     (Inr (Some [0, 255, 0, 255]),
      \<lparr> m_config = GetDefaultConfig, m_strError = [], m_bInitialized = True \<rparr>)"
proof -
  let ?png = "\<lparr> EncodeToMemory = (\<lambda>img w h. Some img), fresh_encoder_error = [] \<rparr>"
  let ?eng = "\<lparr> m_config = GetDefaultConfig, m_strError = [], m_bInitialized = True \<rparr>"
  let ?bbox = "\<lparr> m_dMinX = 0 :: double, m_dMinY = 0, m_dMaxX = 1, m_dMaxY = 1 \<rparr>"
  let ?styles = "[''roads'' \<mapsto> LayerStyle_default \<lparr> m_strStrokeColor := ''#00ff00'' \<rparr>]"
  let ?none = "\<lparr> m_bbox = ?bbox, m_nWidth = 1, m_nHeight = 1, m_vecLayers = [],
      m_mapStyles = Map.empty, m_strBackgroundColor = ''#ffffff'', m_strFilter = [] \<rparr>"
  let ?two = "\<lparr> m_bbox = ?bbox, m_nWidth = 1, m_nHeight = 1,
      m_vecLayers = [''roads'', ''rivers''], m_mapStyles = ?styles,
      m_strBackgroundColor = ''#ffffff'', m_strFilter = [] \<rparr>"
  let ?owt = "\<lparr> m_bbox = ?bbox, m_nWidth = 1, m_nHeight = 1,
      m_vecLayers = [''rivers'', ''roads''], m_mapStyles = ?styles,
      m_strBackgroundColor = ''#ffffff'', m_strFilter = [] \<rparr>"
  have bg: "parse_background ''#ffffff'' = Inr (255, 255, 255, 255)"
    by code_simp
  have f: "first_fault [defaultStyle] = None"
    "first_fault [LayerStyle_default \<lparr> m_strStrokeColor := ''#00ff00'' \<rparr>, LayerStyle_default] = None"
    "first_fault [LayerStyle_default, LayerStyle_default \<lparr> m_strStrokeColor := ''#00ff00'' \<rparr>] = None"
    by code_simp+
  have s: "snd (DrawFeatures defaultStyle [255, 255, 255, 255] 1 1 bbox) = [0, 0, 0, 255]"
    "snd (DrawFeatures LayerStyle_default [255, 255, 255, 255] 1 1 bbox) = [0, 0, 0, 255]"
    "snd (DrawFeatures (LayerStyle_default \<lparr> m_strStrokeColor := ''#00ff00'' \<rparr>)
            [255, 255, 255, 255] 1 1 bbox) = [0, 255, 0, 255]"
    "snd (DrawFeatures LayerStyle_default [0, 255, 0, 255] 1 1 bbox) = [0, 0, 0, 255]"
    "snd (DrawFeatures (LayerStyle_default \<lparr> m_strStrokeColor := ''#00ff00'' \<rparr>)
            [0, 0, 0, 255] 1 1 bbox) = [0, 255, 0, 255]" for bbox
    by code_simp+
  show ?thesis
    using RenderMap_passing [of ?eng ?none ?png] RenderMap_passing [of ?eng ?two ?png]
      RenderMap_passing [of ?eng ?owt ?png] unit_box_valid(1)
    by (simp add: GetDefaultConfig_def spec_layer_styles_def spec_composite_def bg f s)
qed

text \<open>
  Claim C2, at the failing inputs. A request passes every check of \<^verbatim>\<open>RenderMap\<close> and has a
  colour whose parse raises (\<^verbatim>\<open>std::stoi\<close> on \<^verbatim>\<open>zz\<close>): with such a background and no layer,
  \<^verbatim>\<open>RenderMap\<close> raises before the canvas exists and composites no placeholder; with such
  a fill colour for the second of two layers it raises after the first placeholder. In
  neither case does it return, whatever the encoder.
\<close>

theorem RenderMap_aborts_on_colour:
  "passes_checks \<lparr> m_config = GetDefaultConfig, m_strError = [], m_bInitialized = True \<rparr>
     \<lparr> m_bbox = \<lparr> m_dMinX = 0, m_dMinY = 0, m_dMaxX = 1, m_dMaxY = 1 \<rparr>, m_nWidth = 1,
       m_nHeight = 1, m_vecLayers = [], m_mapStyles = Map.empty,
       m_strBackgroundColor = ''#zzzzzz'', m_strFilter = [] \<rparr> \<and>
   RenderMap png \<lparr> m_config = GetDefaultConfig, m_strError = [], m_bInitialized = True \<rparr>
     \<lparr> m_bbox = \<lparr> m_dMinX = 0, m_dMinY = 0, m_dMaxX = 1, m_dMaxY = 1 \<rparr>, m_nWidth = 1,
       m_nHeight = 1, m_vecLayers = [], m_mapStyles = Map.empty,
       m_strBackgroundColor = ''#zzzzzz'', m_strFilter = [] \<rparr> =
     (Inl StdInvalidArgument,
      \<lparr> m_config = GetDefaultConfig, m_strError = [], m_bInitialized = True \<rparr>) \<and>
   passes_checks \<lparr> m_config = GetDefaultConfig, m_strError = [], m_bInitialized = True \<rparr>
     \<lparr> m_bbox = \<lparr> m_dMinX = 0, m_dMinY = 0, m_dMaxX = 1, m_dMaxY = 1 \<rparr>, m_nWidth = 1,
       m_nHeight = 1, m_vecLayers = [''roads'', ''rivers''],
       m_mapStyles = [''rivers'' \<mapsto> LayerStyle_default \<lparr> m_strFillColor := ''#zzzzzz'' \<rparr>],
       m_strBackgroundColor = ''#ffffff'', m_strFilter = [] \<rparr> \<and>
   RenderMap png \<lparr> m_config = GetDefaultConfig, m_strError = [], m_bInitialized = True \<rparr>
     \<lparr> m_bbox = \<lparr> m_dMinX = 0, m_dMinY = 0, m_dMaxX = 1, m_dMaxY = 1 \<rparr>, m_nWidth = 1,
       m_nHeight = 1, m_vecLayers = [''roads'', ''rivers''],
       m_mapStyles = [''rivers'' \<mapsto> LayerStyle_default \<lparr> m_strFillColor := ''#zzzzzz'' \<rparr>],
       m_strBackgroundColor = ''#ffffff'', m_strFilter = [] \<rparr> =
     (Inl StdInvalidArgument,
      \<lparr> m_config = GetDefaultConfig, m_strError = [], m_bInitialized = True \<rparr>)"
proof -
  let ?eng = "\<lparr> m_config = GetDefaultConfig, m_strError = [], m_bInitialized = True \<rparr>"
  let ?bbox = "\<lparr> m_dMinX = 0 :: double, m_dMinY = 0, m_dMaxX = 1, m_dMaxY = 1 \<rparr>"
  let ?bg = "\<lparr> m_bbox = ?bbox, m_nWidth = 1, m_nHeight = 1, m_vecLayers = [],
      m_mapStyles = Map.empty, m_strBackgroundColor = ''#zzzzzz'', m_strFilter = [] \<rparr>"
  let ?fill = "\<lparr> m_bbox = ?bbox, m_nWidth = 1, m_nHeight = 1,
      m_vecLayers = [''roads'', ''rivers''],
      m_mapStyles = [''rivers'' \<mapsto> LayerStyle_default \<lparr> m_strFillColor := ''#zzzzzz'' \<rparr>],
      m_strBackgroundColor = ''#ffffff'', m_strFilter = [] \<rparr>"
  have p: "passes_checks ?eng ?bg" "passes_checks ?eng ?fill"
    using unit_box_valid(1) by (simp_all add: passes_checks_def GetDefaultConfig_def)
  have bg: "parse_background ''#zzzzzz'' = Inl StdInvalidArgument"
    "parse_background ''#ffffff'' = Inr (255, 255, 255, 255)"
    by code_simp+
  have f: "first_fault [LayerStyle_default, LayerStyle_default \<lparr> m_strFillColor := ''#zzzzzz'' \<rparr>] =
      Some StdInvalidArgument"
    by code_simp
  have "RenderMap png ?eng ?bg = (Inl StdInvalidArgument, ?eng)"
    "RenderMap png ?eng ?fill = (Inl StdInvalidArgument, ?eng)"
    using RenderMap_passing [of ?eng ?bg png] RenderMap_passing [of ?eng ?fill png]
      unit_box_valid(1)
    by (simp_all add: GetDefaultConfig_def spec_layer_styles_def bg f)
  with p show ?thesis
    by (simp only: simp_thms)
qed

section \<open>The cache key and the rendered output\<close>

text \<open>
  Two requests that differ only in the style of the layer \<^verbatim>\<open>roads\<close> render differently: the
  stroke of the placeholder is green for the one and black for the other.
\<close>

lemma styles_change_rendering:
  "RenderMap \<lparr> EncodeToMemory = (\<lambda>img w h. Some img), fresh_encoder_error = [] \<rparr>
     \<lparr> m_config = GetDefaultConfig, m_strError = [], m_bInitialized = True \<rparr>
     \<lparr> m_bbox = \<lparr> m_dMinX = 0, m_dMinY = 0, m_dMaxX = 1, m_dMaxY = 1 \<rparr>, m_nWidth = 1,
       m_nHeight = 1, m_vecLayers = [''roads''],
       m_mapStyles = [''roads'' \<mapsto> LayerStyle_default \<lparr> m_strStrokeColor := ''#00ff00'' \<rparr>],
       m_strBackgroundColor = ''#ffffff'', m_strFilter = [] \<rparr> \<noteq>
   RenderMap \<lparr> EncodeToMemory = (\<lambda>img w h. Some img), fresh_encoder_error = [] \<rparr>
     \<lparr> m_config = GetDefaultConfig, m_strError = [], m_bInitialized = True \<rparr>
     \<lparr> m_bbox = \<lparr> m_dMinX = 0, m_dMinY = 0, m_dMaxX = 1, m_dMaxY = 1 \<rparr>, m_nWidth = 1,
       m_nHeight = 1, m_vecLayers = [''roads''], m_mapStyles = Map.empty,
       m_strBackgroundColor = ''#ffffff'', m_strFilter = [] \<rparr>"
proof -
  let ?png = "\<lparr> EncodeToMemory = (\<lambda>img w h. Some img), fresh_encoder_error = [] \<rparr>"
  let ?eng = "\<lparr> m_config = GetDefaultConfig, m_strError = [], m_bInitialized = True \<rparr>"
  let ?bbox = "\<lparr> m_dMinX = 0 :: double, m_dMinY = 0, m_dMaxX = 1, m_dMaxY = 1 \<rparr>"
  let ?green = "\<lparr> m_bbox = ?bbox, m_nWidth = 1, m_nHeight = 1, m_vecLayers = [''roads''],
      m_mapStyles = [''roads'' \<mapsto> LayerStyle_default \<lparr> m_strStrokeColor := ''#00ff00'' \<rparr>],
      m_strBackgroundColor = ''#ffffff'', m_strFilter = [] \<rparr>"
  let ?plain = "\<lparr> m_bbox = ?bbox, m_nWidth = 1, m_nHeight = 1, m_vecLayers = [''roads''],
      m_mapStyles = Map.empty, m_strBackgroundColor = ''#ffffff'', m_strFilter = [] \<rparr>"
  have bg: "parse_background ''#ffffff'' = Inr (255, 255, 255, 255)"
    by code_simp
  have f: "first_fault [LayerStyle_default \<lparr> m_strStrokeColor := ''#00ff00'' \<rparr>] = None"
    "first_fault [LayerStyle_default] = None"
    by code_simp+
  have s: "snd (DrawFeatures (LayerStyle_default \<lparr> m_strStrokeColor := ''#00ff00'' \<rparr>)
            [255, 255, 255, 255] 1 1 bbox) = [0, 255, 0, 255]"
    "snd (DrawFeatures LayerStyle_default [255, 255, 255, 255] 1 1 bbox) = [0, 0, 0, 255]" for bbox
    by code_simp+
  have "RenderMap ?png ?eng ?green = (Inr (Some [0, 255, 0, 255]), ?eng)"
    "RenderMap ?png ?eng ?plain = (Inr (Some [0, 0, 0, 255]), ?eng)"
    using RenderMap_passing [of ?eng ?green ?png] RenderMap_passing [of ?eng ?plain ?png]
      unit_box_valid(1)
    by (simp_all add: GetDefaultConfig_def spec_layer_styles_def spec_composite_def bg f s)
  then show ?thesis by simp
qed

text \<open>The filter string is read neither by the validation nor by \<^verbatim>\<open>RenderMap\<close>.\<close>

lemma filter_not_rendered:
  "RenderMap png eng (request \<lparr> m_strFilter := strFilter \<rparr>) = RenderMap png eng request"
proof -
  have l: "RenderMap_layers (request \<lparr> m_strFilter := strFilter \<rparr>) layers vec =
        RenderMap_layers request layers vec" for layers vec
    by (induction layers arbitrary: vec) (simp_all split: prod.splits sum.splits)
  show ?thesis
    by (simp add: RenderMap_def l cong: prod.case_cong sum.case_cong if_cong option.case_cong)
qed

lemma filter_not_validated:
  "ValidateMapRequestParameters config (request \<lparr> m_strFilter := strFilter \<rparr>) =
     ValidateMapRequestParameters config request"
  by (simp add: ValidateMapRequestParameters_def Let_def cong: if_cong)

lemma filter_not_served:
  "HandleGenerateRequest png config eng (request \<lparr> m_strFilter := strFilter \<rparr>) =
     HandleGenerateRequest png config eng request"
  by (simp add: HandleGenerateRequest_def filter_not_rendered filter_not_validated
      cong: sum.case_cong)

text \<open>
  Claim C10, as stated, says that the style map and the filter can both change the rendered
  output. The filter cannot: whatever the request, the engine and the encoder are,
  replacing the filter changes neither the result of \<^verbatim>\<open>RenderMap\<close> nor the response of
  \<^verbatim>\<open>HandleGenerateRequest\<close>.
\<close>

theorem filter_never_changes_output:
  "\<forall>png config eng request strFilter.
     RenderMap png eng (request \<lparr> m_strFilter := strFilter \<rparr>) = RenderMap png eng request \<and>
     HandleGenerateRequest png config eng (request \<lparr> m_strFilter := strFilter \<rparr>) =
       HandleGenerateRequest png config eng request"
  by (simp add: filter_not_rendered filter_not_served)

text \<open>
  Claim C10, amended. The key reads neither the style map nor the filter: replacing either
  in a request leaves the key unchanged, for every hash and number format. The style map
  can change the rendered output (two requests that differ only in it render differently);
  the filter leaves the rendered output unchanged as well.
\<close>

theorem cache_key_ignores_styles_and_filter:
  "GenerateCacheKey put_double std_hash (request \<lparr> m_mapStyles := styles \<rparr>) =
     GenerateCacheKey put_double std_hash request \<and>
   GenerateCacheKey put_double std_hash (request \<lparr> m_strFilter := strFilter \<rparr>) =
     GenerateCacheKey put_double std_hash request \<and>
   RenderMap \<lparr> EncodeToMemory = (\<lambda>img w h. Some img), fresh_encoder_error = [] \<rparr>
     \<lparr> m_config = GetDefaultConfig, m_strError = [], m_bInitialized = True \<rparr>
     \<lparr> m_bbox = \<lparr> m_dMinX = 0, m_dMinY = 0, m_dMaxX = 1, m_dMaxY = 1 \<rparr>, m_nWidth = 1,
       m_nHeight = 1, m_vecLayers = [''roads''],
       m_mapStyles = [''roads'' \<mapsto> LayerStyle_default \<lparr> m_strStrokeColor := ''#00ff00'' \<rparr>],
       m_strBackgroundColor = ''#ffffff'', m_strFilter = [] \<rparr> \<noteq>
   RenderMap \<lparr> EncodeToMemory = (\<lambda>img w h. Some img), fresh_encoder_error = [] \<rparr>
     \<lparr> m_config = GetDefaultConfig, m_strError = [], m_bInitialized = True \<rparr>
     \<lparr> m_bbox = \<lparr> m_dMinX = 0, m_dMinY = 0, m_dMaxX = 1, m_dMaxY = 1 \<rparr>, m_nWidth = 1,
       m_nHeight = 1, m_vecLayers = [''roads''], m_mapStyles = Map.empty,
       m_strBackgroundColor = ''#ffffff'', m_strFilter = [] \<rparr> \<and>
   RenderMap png eng (request \<lparr> m_strFilter := strFilter \<rparr>) = RenderMap png eng request"
  using styles_change_rendering
  by (simp add: GenerateCacheKey_def CacheKeyString_def filter_not_rendered)

end
